theory Spec2Isabelle
  imports Complex_Main
begin

section \<open>Python values, errors and platform operations\<close>

text \<open>
  The captcha gateway of \<^verbatim>\<open>modules/captcha_verification.py\<close> is embedded as pure
  functions over explicit state. Discord identifiers and counters are Python integers
  (\<^typ>\<open>int\<close>); the readings of \<^verbatim>\<open>time.time()\<close> are rationals. Every raise of the
  source is a value: a handler returns \<open>Done s\<close> when it runs to its end (or returns
  early) and \<open>Raised e s\<close> when an exception leaves it, where \<open>s\<close> is the state at that
  moment: what was mutated before the raise stays mutated.
\<close>

datatype error = TypeError | AttributeError | KeyError

datatype 's outcome = Done 's | Raised error 's

fun state_of :: "'s outcome \<Rightarrow> 's" where
  "state_of (Done s) = s"
| "state_of (Raised e s) = s"

fun raised :: "'s outcome \<Rightarrow> error option" where
  "raised (Done s) = None"
| "raised (Raised e s) = Some e"

text \<open>
  A message text is a configured template (named by its key in the settings document, or
  a literal) with the substitutions made so far. \<^verbatim>\<open>str.replace(old, new)\<close> raises
  \<^verbatim>\<open>TypeError\<close> when \<open>new\<close> is not a string: the source passes an integer where it
  omits \<^verbatim>\<open>str(...)\<close>.
\<close>

datatype pyval = PStr string | PInt int

datatype message = Template string | Replace message string string

fun str_replace :: "message \<Rightarrow> string \<Rightarrow> pyval \<Rightarrow> error + message" where
  "str_replace t old (PStr new) = Inr (Replace t old new)"
| "str_replace t old (PInt n) = Inl TypeError"

text \<open>\<^verbatim>\<open>str(n)\<close> for an integer: the decimal digits, with a sign.\<close>

fun digits :: "nat \<Rightarrow> nat \<Rightarrow> string" where
  "digits 0 n = []"
| "digits (Suc fuel) n =
     (if n < 10 then [char_of (48 + n)]
      else digits fuel (n div 10) @ [char_of (48 + n mod 10)])"

definition str :: "int \<Rightarrow> string" where
  "str n = (if n < 0 then CHR ''-'' # digits (Suc (nat (- n))) (nat (- n))
            else digits (Suc (nat n)) (nat n))"

text \<open>
  A text is the list of its bytes (UTF-8). \<^verbatim>\<open>str.lower()\<close> follows the interpreter's
  Unicode tables, which are no part of the repository: the handlers read it from the
  world they run in (\<open>str_lower\<close> below). On text of ASCII characters only it is
  \<open>ascii_lower\<close>, which the scenarios use.
\<close>

definition ascii_lower_char :: "char \<Rightarrow> char" where
  "ascii_lower_char c =
     (let n = (of_char c :: nat) in if 65 \<le> n \<and> n \<le> 90 then char_of (n + 32) else c)"

definition ascii_lower :: "string \<Rightarrow> string" where
  "ascii_lower s = map ascii_lower_char s"

text \<open>An invite of the platform; \<^verbatim>\<open>Invite.id\<close> is its code.\<close>

record invite =
  inv_code :: string
  inv_uses :: int
  inv_max_age :: int
  inv_max_uses :: int

definition inv_url :: "invite \<Rightarrow> string" where
  "inv_url i = ''https://discord.gg/'' @ inv_code i"

text \<open>
  The platform operations a handler performs, in the order it performs them. Guilds,
  members and channels are named by their ids: \<open>Ban g m reason\<close>, \<open>Kick g m\<close>,
  \<open>Unban g m\<close> and \<open>AddRole g m role\<close> act on member \<open>m\<close> of guild \<open>g\<close>;
  \<open>CreateTextChannel g ch\<close> creates channel \<open>ch\<close> in guild \<open>g\<close>; \<open>Send ch msg\<close> posts
  an embed or text, \<open>SendFile ch secret title\<close> the captcha image of \<open>secret\<close>;
  \<open>CreateInvite ch max_age max_uses\<close> creates an invite from channel \<open>ch\<close>.
\<close>

datatype action =
    Ban int int string
  | Kick int int
  | Unban int int
  | AddRole int int string
  | CreateTextChannel int int
  | DeleteChannel int
  | Send int message
  | SendFile int string message
  | CreateDM int
  | DirectMessage int message
  | CreateInvite int int int
  | DeleteInvite string

section \<open>DataManager: the persisted collections\<close>

text \<open>
  A collection is the list of its documents in insertion order. \<^verbatim>\<open>find\<close> returns a
  cursor over the matching documents, \<^verbatim>\<open>find_one\<close> the first match or \<^verbatim>\<open>None\<close>,
  \<^verbatim>\<open>delete_one\<close> removes the first match, and an update sets fields of the first match.
\<close>

datatype 'd cursor = Cursor "'d list"

definition mongo_find :: "('d \<Rightarrow> bool) \<Rightarrow> 'd list \<Rightarrow> 'd cursor" where
  "mongo_find q coll = Cursor (filter q coll)"

definition mongo_find_one :: "('d \<Rightarrow> bool) \<Rightarrow> 'd list \<Rightarrow> 'd option" where
  "mongo_find_one q coll = List.find q coll"

definition mongo_insert_one :: "'d \<Rightarrow> 'd list \<Rightarrow> 'd list" where
  "mongo_insert_one d coll = coll @ [d]"

fun mongo_delete_one :: "('d \<Rightarrow> bool) \<Rightarrow> 'd list \<Rightarrow> 'd list" where
  "mongo_delete_one q [] = []"
| "mongo_delete_one q (d # ds) = (if q d then ds else d # mongo_delete_one q ds)"

fun mongo_update_one :: "('d \<Rightarrow> bool) \<Rightarrow> ('d \<Rightarrow> 'd) \<Rightarrow> 'd list \<Rightarrow> 'd list" where
  "mongo_update_one q f [] = []"
| "mongo_update_one q f (d # ds) = (if q d then f d # ds else d # mongo_update_one q f ds)"

record channel_doc =
  cd_guild_id :: int
  cd_channel_id :: int
  cd_member_id :: int
  cd_tries :: int
  cd_active :: bool
  cd_ttl :: int
  cd_completed :: bool
  cd_failed :: bool
  cd_created_at :: rat
  cd_last_updated :: "rat option"

record blacklist_entry =
  bl_mid :: int
  bl_started :: rat
  bl_ends :: rat
  bl_reason :: string

record counter_entry =
  ct_mid :: int
  ct_counter :: int
  ct_updated_at :: rat

record data_manager =
  captcha_channels :: "channel_doc list"
  captcha_blacklist :: "blacklist_entry list"
  captcha_counter :: "counter_entry list"
  member_cache :: "(int \<times> string) list"
  registered_invitations :: "string list"

definition empty_db :: data_manager where
  "empty_db = \<lparr>captcha_channels = [], captcha_blacklist = [], captcha_counter = [],
     member_cache = [], registered_invitations = []\<rparr>"

definition update_captcha_counter :: "rat \<Rightarrow> int \<Rightarrow> int \<Rightarrow> data_manager \<Rightarrow> data_manager" where
  "update_captcha_counter now member_id counter db =
     (case mongo_find_one (\<lambda>e. ct_mid e = member_id) (captcha_counter db) of
        Some entry \<Rightarrow>
          db\<lparr>captcha_counter :=
               mongo_update_one (\<lambda>e. ct_mid e = member_id)
                 (\<lambda>e. e\<lparr>ct_counter := ct_counter entry + counter, ct_updated_at := now\<rparr>)
                 (captcha_counter db)\<rparr>
      | None \<Rightarrow>
          db\<lparr>captcha_counter :=
               mongo_insert_one
                 \<lparr>ct_mid = member_id, ct_counter = counter, ct_updated_at = now\<rparr>
                 (captcha_counter db)\<rparr>)"

definition get_captcha_counter :: "int \<Rightarrow> data_manager \<Rightarrow> counter_entry option" where
  "get_captcha_counter member_id db =
     mongo_find_one (\<lambda>e. ct_mid e = member_id) (captcha_counter db)"

definition reset_captcha_counter :: "int \<Rightarrow> data_manager \<Rightarrow> data_manager" where
  "reset_captcha_counter member_id db =
     db\<lparr>captcha_counter :=
          mongo_update_one (\<lambda>e. ct_mid e = member_id) (\<lambda>e. e\<lparr>ct_counter := 0\<rparr>)
            (captcha_counter db)\<rparr>"

definition add_blacklisted_member :: "int \<Rightarrow> string \<Rightarrow> data_manager \<Rightarrow> data_manager" where
  "add_blacklisted_member mid display_name db =
     db\<lparr>member_cache := mongo_insert_one (mid, display_name) (member_cache db)\<rparr>"

definition get_blacklisted_member :: "int \<Rightarrow> data_manager \<Rightarrow> (int \<times> string) option" where
  "get_blacklisted_member member_id db =
     mongo_find_one (\<lambda>e. fst e = member_id) (member_cache db)"

text \<open>
  \<^verbatim>\<open>update_captcha_channel\<close>: the update is a set of field assignments; the time of the
  call is stored as \<^verbatim>\<open>last_updated\<close> (no caller passes that key itself).
\<close>

definition update_captcha_channel ::
  "rat \<Rightarrow> int \<Rightarrow> int \<Rightarrow> (channel_doc \<Rightarrow> channel_doc) \<Rightarrow> data_manager \<Rightarrow> data_manager" where
  "update_captcha_channel now guild_id channel_id upd db =
     db\<lparr>captcha_channels :=
          mongo_update_one (\<lambda>d. cd_guild_id d = guild_id \<and> cd_channel_id d = channel_id)
            (\<lambda>d. (upd d)\<lparr>cd_last_updated := Some now\<rparr>)
            (captcha_channels db)\<rparr>"

definition is_blacklisted :: "int \<Rightarrow> data_manager \<Rightarrow> bool" where
  "is_blacklisted member_id db =
     (mongo_find_one (\<lambda>e. bl_mid e = member_id) (captcha_blacklist db) \<noteq> None)"

definition add_member_to_blacklist ::
  "rat \<Rightarrow> int \<Rightarrow> int \<Rightarrow> string \<Rightarrow> data_manager \<Rightarrow> data_manager" where
  "add_member_to_blacklist now mid duration reason db =
     db\<lparr>captcha_blacklist :=
          mongo_insert_one
            \<lparr>bl_mid = mid, bl_started = now, bl_ends = now + of_int duration,
             bl_reason = reason\<rparr>
            (captcha_blacklist db)\<rparr>"

definition get_blacklisted_member_info :: "int \<Rightarrow> data_manager \<Rightarrow> blacklist_entry option" where
  "get_blacklisted_member_info member_id db =
     mongo_find_one (\<lambda>e. bl_mid e = member_id) (captcha_blacklist db)"

definition remove_member_from_blacklist :: "int \<Rightarrow> data_manager \<Rightarrow> data_manager" where
  "remove_member_from_blacklist member_id db =
     db\<lparr>captcha_blacklist :=
          mongo_delete_one (\<lambda>e. bl_mid e = member_id) (captcha_blacklist db)\<rparr>"

definition get_blacklist :: "data_manager \<Rightarrow> blacklist_entry list" where
  "get_blacklist db = captcha_blacklist db"

definition get_captcha_counters :: "data_manager \<Rightarrow> counter_entry list" where
  "get_captcha_counters db = captcha_counter db"

text \<open>
  \<^verbatim>\<open>is_registered_invitation\<close> tests the cursor that \<^verbatim>\<open>find\<close> returns against
  \<^verbatim>\<open>None\<close>. The cursor is an object whatever it holds (\<open>Some\<close> of it, as a Python
  reference); \<^verbatim>\<open>is_blacklisted\<close> above tests the document of \<^verbatim>\<open>find_one\<close>.
\<close>

definition is_registered_invitation :: "string \<Rightarrow> data_manager \<Rightarrow> bool" where
  "is_registered_invitation invite_code db =
     (Some (mongo_find (\<lambda>c. c = invite_code) (registered_invitations db)) \<noteq> None)"

definition add_registered_invitation :: "string \<Rightarrow> data_manager \<Rightarrow> data_manager" where
  "add_registered_invitation invite_code db =
     db\<lparr>registered_invitations := mongo_insert_one invite_code (registered_invitations db)\<rparr>"

definition remove_registered_invitation :: "string \<Rightarrow> data_manager \<Rightarrow> data_manager" where
  "remove_registered_invitation invite_code db =
     db\<lparr>registered_invitations :=
          mongo_delete_one (\<lambda>c. c = invite_code) (registered_invitations db)\<rparr>"

section \<open>Configuration and the world outside a session\<close>

text \<open>
  The captcha settings read by the code (\<^verbatim>\<open>get_config()\<close>), and \<^verbatim>\<open>config.MAIN_SERVER\<close>.
  The key \<^verbatim>\<open>gateway_rejoin.cooldown\<close> is optional: the default settings do not hold it.
\<close>

record config =
  main_server :: int
  operators :: "int list"
  captcha_time_to_live :: int
  blacklist_length :: int
  main_guild_landing_channel :: "int option"
  rejoin_limit :: int
  rejoin_blacklist_duration :: int
  rejoin_reset_after_duration :: int
  rejoin_cooldown :: "int option"

text \<open>The defaults \<^verbatim>\<open>CaptchaModule.__init__\<close> writes when the settings have none.\<close>

definition default_config :: "int \<Rightarrow> config" where
  "default_config main = \<lparr>main_server = main, operators = [], captcha_time_to_live = 900,
     blacklist_length = 86400, main_guild_landing_channel = None, rejoin_limit = 3,
     rejoin_blacklist_duration = 86400, rejoin_reset_after_duration = 900,
     rejoin_cooldown = None\<rparr>"

definition is_operator :: "config \<Rightarrow> int \<Rightarrow> bool" where
  "is_operator cfg member_id = (member_id \<in> set (operators cfg))"

record member =
  m_id :: int
  m_name :: string
  m_display_name :: string
  m_guild :: int

text \<open>
  The world a handler runs in: the clock \<^verbatim>\<open>time.time()\<close> reads, the database, the log
  of platform operations performed so far (oldest first), and what the platform reports
  about each guild (members, bans, role names, text channels) and each user (the cached
  direct-message channel). \<open>logger_callable\<close> says
  whether \<^verbatim>\<open>bot.logger\<close> can be called as a function (its class is not part of the
  repository's sources); \<open>str_lower\<close> is the interpreter's \<^verbatim>\<open>str.lower()\<close>.
\<close>

record world =
  clock :: rat
  db :: data_manager
  oplog :: "action list"
  members_of :: "int \<Rightarrow> member list"
  bans_of :: "int \<Rightarrow> int list"
  roles_of :: "int \<Rightarrow> string list"
  text_channels_of :: "int \<Rightarrow> int list"
  dm_channel_of :: "int \<Rightarrow> int option"
  announcement_channel :: "int option"
  logger_callable :: bool
  str_lower :: "string \<Rightarrow> string"

text \<open>
  What the platform and the random generator answer during one handler: the text of the
  next captcha (\<^verbatim>\<open>random_chars(6)\<close>), the code of the next invite created, the id of
  the next text channel created.
\<close>

record responses =
  next_captcha_text :: string
  next_invite_code :: string
  next_channel_id :: int

definition perform :: "action \<Rightarrow> world \<Rightarrow> world" where
  "perform a w = w\<lparr>oplog := oplog w @ [a]\<rparr>"

definition get_member :: "world \<Rightarrow> int \<Rightarrow> int \<Rightarrow> member option" where
  "get_member w guild_id member_id = List.find (\<lambda>m. m_id m = member_id) (members_of w guild_id)"

text \<open>
  \<^verbatim>\<open>member.ban(reason)\<close>: the platform puts the user among the bans of the member's
  guild (once, however often the user is banned).
\<close>

definition ban_member :: "member \<Rightarrow> string \<Rightarrow> world \<Rightarrow> world" where
  "ban_member m reason w =
     (perform (Ban (m_guild m) (m_id m) reason) w)
       \<lparr>bans_of := (bans_of w)(m_guild m :=
          (if m_id m \<in> set (bans_of w (m_guild m)) then bans_of w (m_guild m)
           else bans_of w (m_guild m) @ [m_id m]))\<rparr>"

section \<open>CaptchaChannel: one member's session\<close>

record captcha_channel =
  cc_member :: "member option"
  cc_guild :: int
  cc_channel :: "int option"
  cc_answer_text :: "string option"
  cc_started :: bool
  cc_tries :: int
  cc_invite :: "invite option"
  cc_completed :: bool
  cc_ttl :: int
  cc_internal_clock :: int
  cc_active :: bool
  cc_countdown :: bool

text \<open>
  \<^verbatim>\<open>CaptchaChannel.__init__\<close>. The attribute \<^verbatim>\<open>_channel\<close> is set by \<^verbatim>\<open>start\<close>;
  \<open>cc_countdown\<close> records whether the one-second loop \<^verbatim>\<open>countdown\<close> runs.
\<close>

definition captcha_channel_init :: "config \<Rightarrow> int \<Rightarrow> member option \<Rightarrow> captcha_channel" where
  "captcha_channel_init cfg guild_id m = \<lparr>cc_member = m, cc_guild = guild_id, cc_channel = None,
     cc_answer_text = None, cc_started = False, cc_tries = 5, cc_invite = None,
     cc_completed = False, cc_ttl = captcha_time_to_live cfg, cc_internal_clock = 0,
     cc_active = False, cc_countdown = False\<rparr>"

definition get_ttl :: "captcha_channel \<Rightarrow> int" where
  "get_ttl c = cc_ttl c"

definition is_active :: "captcha_channel \<Rightarrow> bool" where
  "is_active c = cc_active c"

definition has_completed_captcha :: "captcha_channel \<Rightarrow> bool" where
  "has_completed_captcha c = cc_completed c"

definition get_tries :: "captcha_channel \<Rightarrow> int" where
  "get_tries c = cc_tries c"

definition get_invite :: "captcha_channel \<Rightarrow> invite option" where
  "get_invite c = cc_invite c"

text \<open>
  The state of a session-level handler is the session object with the world. A handler
  is a sequence of steps; a raise ends the sequence with the state reached.
\<close>

type_synonym session = "captcha_channel \<times> world"

fun steps :: "('s \<Rightarrow> 's outcome) list \<Rightarrow> 's \<Rightarrow> 's outcome" where
  "steps [] s = Done s"
| "steps (f # fs) s = (case f s of Done s' \<Rightarrow> steps fs s' | Raised e s' \<Rightarrow> Raised e s')"

text \<open>Attribute access on \<^verbatim>\<open>self._channel\<close> and \<^verbatim>\<open>self._member\<close>, which may be \<^verbatim>\<open>None\<close>.\<close>

definition with_channel :: "(int \<Rightarrow> session \<Rightarrow> session outcome) \<Rightarrow> session \<Rightarrow> session outcome" where
  "with_channel f s =
     (case cc_channel (fst s) of None \<Rightarrow> Raised AttributeError s | Some ch \<Rightarrow> f ch s)"

definition with_member :: "(member \<Rightarrow> session \<Rightarrow> session outcome) \<Rightarrow> session \<Rightarrow> session outcome" where
  "with_member f s =
     (case cc_member (fst s) of None \<Rightarrow> Raised AttributeError s | Some m \<Rightarrow> f m s)"

definition channel_send :: "message \<Rightarrow> session \<Rightarrow> session outcome" where
  "channel_send msg = with_channel (\<lambda>ch s. Done (fst s, perform (Send ch msg) (snd s)))"

text \<open>\<^verbatim>\<open>self._data_manager.update_captcha_channel(self._guild.id, self._channel.id, ...)\<close>\<close>

definition persist :: "(captcha_channel \<Rightarrow> channel_doc \<Rightarrow> channel_doc) \<Rightarrow> session \<Rightarrow> session outcome" where
  "persist upd = with_channel (\<lambda>ch s.
     Done (fst s, (snd s)\<lparr>db :=
       update_captcha_channel (clock (snd s)) (cc_guild (fst s)) ch (upd (fst s)) (db (snd s))\<rparr>))"

definition destory :: "session \<Rightarrow> session outcome" where
  "destory = with_channel (\<lambda>ch s. Done (fst s, perform (DeleteChannel ch) (snd s)))"

text \<open>
  The unit and value of a remaining time, as \<^verbatim>\<open>alert\<close>, the expiry branch and
  \<^verbatim>\<open>start\<close> compute them; \<^verbatim>\<open>math.floor(t / 60)\<close> is \<open>t div 60\<close> on integers.
\<close>

definition time_value :: "int \<Rightarrow> int" where
  "time_value t = (let minutes = t div 60 in if minutes > 0 then minutes else t)"

definition time_unit :: "int \<Rightarrow> string" where
  "time_unit t =
     (let minutes = t div 60 in
      if minutes > 0 then (if minutes > 1 then ''minutes'' else ''minute'')
      else (if t > 1 then ''seconds'' else ''second''))"

text \<open>
  \<^verbatim>\<open>alert()\<close> inside \<^verbatim>\<open>countdown\<close>: the second \<^verbatim>\<open>replace\<close> gets the integer
  \<^verbatim>\<open>time_value\<close>.
\<close>

definition alert :: "session \<Rightarrow> session outcome" where
  "alert s =
     (case str_replace (Template ''countdown_alert_message'') ''{time_unit}''
             (PStr (time_unit (cc_ttl (fst s)))) of
        Inl e \<Rightarrow> Raised e s
      | Inr d1 \<Rightarrow>
          (case str_replace d1 ''{time_value}'' (PInt (time_value (cc_ttl (fst s)))) of
             Inl e \<Rightarrow> Raised e s
           | Inr d2 \<Rightarrow> channel_send d2 s))"

text \<open>
  The statements of the expiry branch after its embed is built: the message, stopping
  the loop, the record, the ban with its blacklist entry, and the channel's deletion.
\<close>

definition expire :: "config \<Rightarrow> message \<Rightarrow> session \<Rightarrow> session outcome" where
  "expire cfg emb =
     steps [
       channel_send emb,
       (\<lambda>s. Done ((fst s)\<lparr>cc_countdown := False\<rparr>, snd s)),
       persist (\<lambda>c d. d\<lparr>cd_active := False, cd_completed := False, cd_failed := True, cd_ttl := 0\<rparr>),
       with_member (\<lambda>m s.
         if \<not> is_operator cfg (m_id m) then
           Done (fst s,
             (let w = ban_member m ''Failed to complete Captcha assessment.'' (snd s) in
              w\<lparr>db := add_member_to_blacklist (clock w) (m_id m) 900
                   ''Failed to complete Captcha assessment.'' (db w)\<rparr>))
         else Done s),
       destory]"

definition countdown_elapsed :: "config \<Rightarrow> session \<Rightarrow> session outcome" where
  "countdown_elapsed cfg s =
     (let default_ttl = captcha_time_to_live cfg in
      case str_replace (Template ''time_elapsed_message'') ''{time_value}''
             (PInt (time_value default_ttl)) of
        Inl e \<Rightarrow> Raised e s
      | Inr d1 \<Rightarrow>
          (case str_replace d1 ''{time_unit}'' (PStr (time_unit default_ttl)) of
             Inl e \<Rightarrow> Raised e s
           | Inr d2 \<Rightarrow> expire cfg d2 s))"

text \<open>
  One run of the loop body \<^verbatim>\<open>countdown\<close>. \<^verbatim>\<open>minutes = self._ttl / 60\<close> is a true
  division, compared with the whole numbers of the list; both reminder tests stand under
  \<^verbatim>\<open>if self._ttl >= 600\<close>.
\<close>

definition countdown :: "config \<Rightarrow> session \<Rightarrow> session outcome" where
  "countdown cfg =
     steps [
       (\<lambda>s. Done ((fst s)\<lparr>cc_ttl := cc_ttl (fst s) - 1,
                          cc_internal_clock := cc_internal_clock (fst s) + 1\<rparr>, snd s)),
       (\<lambda>s. if cc_internal_clock (fst s) \<ge> 60 then
               steps [persist (\<lambda>c d. d\<lparr>cd_ttl := cc_ttl c\<rparr>),
                      (\<lambda>s. Done ((fst s)\<lparr>cc_internal_clock := 0\<rparr>, snd s))] s
             else Done s),
       (\<lambda>s. if cc_ttl (fst s) \<ge> 600 then
               steps [
                 (\<lambda>s. if (of_int (cc_ttl (fst s)) / 60 :: rat) \<in> set [10, 5, 4, 3, 2, 1]
                       then alert s else Done s),
                 (\<lambda>s. if cc_ttl (fst s) \<in> set [30, 15, 10, 5] then alert s else Done s)] s
             else Done s),
       (\<lambda>s. if cc_ttl (fst s) \<le> 0 then countdown_elapsed cfg s else Done s)]"

text \<open>
  \<^verbatim>\<open>construct_embed\<close> and \<^verbatim>\<open>send_captcha_message\<close>: a new image and secret while
  tries remain, the failure message otherwise.
\<close>

definition construct_embed :: "responses \<Rightarrow> captcha_channel \<Rightarrow> captcha_channel \<times> message" where
  "construct_embed rsp c =
     (c\<lparr>cc_answer_text := Some (next_captcha_text rsp)\<rparr>,
      Replace (Replace (Template ''captcha_message_embed_title'')
                 ''{current_try}'' (str (get_tries c)))
        ''{tries_left}'' (str (get_tries c - 1)))"

definition send_captcha_message :: "responses \<Rightarrow> session \<Rightarrow> session outcome" where
  "send_captcha_message rsp s =
     (if cc_tries (fst s) \<noteq> 0 then
        (let (c, title) = construct_embed rsp (fst s) in
         with_channel (\<lambda>ch s. Done (fst s, perform (SendFile ch (next_captcha_text rsp) title) (snd s)))
           (c, snd s))
      else channel_send (Template ''failed_captcha_message'') s)"

text \<open>
  \<^verbatim>\<open>create_tldr_invite\<close>: the landing channel of the main guild is looked up by the
  configured id. Without it the code calls the logger object itself and returns nothing.
\<close>

definition create_tldr_invite :: "config \<Rightarrow> responses \<Rightarrow> world \<Rightarrow> error + (invite option \<times> world)" where
  "create_tldr_invite cfg rsp w =
     (case (case main_guild_landing_channel cfg of
              None \<Rightarrow> None
            | Some i \<Rightarrow> List.find (\<lambda>ch. ch = i) (text_channels_of w (main_server cfg))) of
        None \<Rightarrow> (if logger_callable w then Inr (None, w) else Inl TypeError)
      | Some ch \<Rightarrow>
          Inr (Some \<lparr>inv_code = next_invite_code rsp, inv_uses = 0, inv_max_age = 120,
                     inv_max_uses = 1\<rparr>,
               perform (CreateInvite ch 120 1) w))"

text \<open>
  \<^verbatim>\<open>on_message\<close>. The two guards read \<^verbatim>\<open>_started\<close> and \<^verbatim>\<open>_answer_text\<close>.
  \<^verbatim>\<open>asyncio.sleep(10)\<close> advances the clock; what other handlers do meanwhile is not
  part of this function.
\<close>

definition on_message :: "config \<Rightarrow> responses \<Rightarrow> string \<Rightarrow> session \<Rightarrow> session outcome" where
  "on_message cfg rsp content s =
     (if \<not> cc_started (fst s) then Done s
      else case cc_answer_text (fst s) of
        None \<Rightarrow> Done s
      | Some answer_text \<Rightarrow>
          if str_lower (snd s) content \<noteq> answer_text then
            steps [
              channel_send (Template ''Incorrect.''),
              (\<lambda>s. Done ((fst s)\<lparr>cc_tries :=
                       (if cc_tries (fst s) > 0 then cc_tries (fst s) - 1 else 0)\<rparr>, snd s)),
              persist (\<lambda>c d. d\<lparr>cd_tries := cc_tries c\<rparr>),
              send_captcha_message rsp,
              (\<lambda>s. if cc_tries (fst s) = 0 then
                      steps [
                        (\<lambda>s. Done (fst s, (snd s)\<lparr>clock := clock (snd s) + 10\<rparr>)),
                        persist (\<lambda>c d. d\<lparr>cd_active := False, cd_completed := False,
                                         cd_failed := True\<rparr>),
                        with_member (\<lambda>m s.
                          if \<not> is_operator cfg (m_id m) then
                            Done (fst s,
                              (let w = snd s;
                                   reason = ''Failed to complete Captcha assessment; failed to complete the assessment in time..'';
                                   w1 = w\<lparr>db := add_blacklisted_member (m_id m) (m_display_name m) (db w)\<rparr>;
                                   w2 = w1\<lparr>db := add_member_to_blacklist (clock w1) (m_id m)
                                                    (blacklist_length cfg) reason (db w1)\<rparr>
                               in ban_member m reason w2))
                          else Done s)] s
                    else Done s)] s
          else
            (case create_tldr_invite cfg rsp (snd s) of
               Inl e \<Rightarrow> Raised e s
             | Inr (None, w) \<Rightarrow> Raised AttributeError ((fst s)\<lparr>cc_invite := None\<rparr>, w)
             | Inr (Some i, w) \<Rightarrow>
                 steps [
                   (\<lambda>s. Done ((fst s)\<lparr>cc_completed := True\<rparr>, snd s)),
                   channel_send (Replace (Template ''completed_captcha_message'')
                                   ''{invite_url}'' (inv_url i)),
                   persist (\<lambda>c d. d\<lparr>cd_active := False, cd_completed := True,
                                    cd_failed := False, cd_ttl := 0\<rparr>)]
                   ((fst s)\<lparr>cc_invite := Some i\<rparr>, w)))"

text \<open>
  \<^verbatim>\<open>start(**kwargs)\<close>. The keyword arguments are absent (a new session) or the five
  fields of a persisted record (a restart). \<^verbatim>\<open>kwargs.get(k)\<close> used as a condition is
  false for a missing key, for \<^verbatim>\<open>0\<close> and for \<^verbatim>\<open>False\<close>.
\<close>

record start_kwargs =
  kw_channel_id :: "int option"
  kw_tries :: "int option"
  kw_member_id :: "int option"
  kw_completed :: "bool option"
  kw_ttl :: "int option"

definition no_kwargs :: start_kwargs where
  "no_kwargs = \<lparr>kw_channel_id = None, kw_tries = None, kw_member_id = None,
     kw_completed = None, kw_ttl = None\<rparr>"

fun truthy :: "int option \<Rightarrow> bool" where
  "truthy None = False"
| "truthy (Some n) = (n \<noteq> 0)"

definition add_captcha_channel :: "session \<Rightarrow> session outcome" where
  "add_captcha_channel =
     with_channel (\<lambda>ch. with_member (\<lambda>m s.
       Done (fst s, (snd s)\<lparr>db := (db (snd s))\<lparr>captcha_channels :=
         mongo_insert_one
           \<lparr>cd_guild_id = cc_guild (fst s), cd_channel_id = ch, cd_member_id = m_id m,
            cd_tries = get_tries (fst s), cd_active = is_active (fst s),
            cd_ttl = get_ttl (fst s), cd_completed = False, cd_failed = False,
            cd_created_at = clock (snd s), cd_last_updated = None\<rparr>
           (captcha_channels (db (snd s)))\<rparr>\<rparr>)))"

definition start_session :: "config \<Rightarrow> responses \<Rightarrow> start_kwargs \<Rightarrow> session \<Rightarrow> session outcome" where
  "start_session cfg rsp kw =
     with_member (\<lambda>m s.
       if kw_completed kw = Some True \<and> get_member (snd s) (main_server cfg) (m_id m) \<noteq> None
       then Done (fst s, perform (Kick (m_guild m) (m_id m)) (snd s))
       else
         steps [
           (\<lambda>s. if truthy (kw_ttl kw) then Done ((fst s)\<lparr>cc_ttl := the (kw_ttl kw)\<rparr>, snd s)
                 else Done s),
           (\<lambda>s. Done ((fst s)\<lparr>cc_started := True, cc_countdown := True, cc_active := True\<rparr>,
                       snd s)),
           (\<lambda>s. if kw = no_kwargs then add_captcha_channel s
                 else channel_send
                        (Replace (Replace (Replace (Template ''bot_startup_captcha_message'')
                           ''{time_unit}'' (time_unit (cc_ttl (fst s))))
                           ''{time_value}'' (str (time_value (cc_ttl (fst s)))))
                           ''{try_count}'' (str (cc_tries (fst s)))) s),
           send_captcha_message rsp] s)"

definition start :: "config \<Rightarrow> responses \<Rightarrow> start_kwargs \<Rightarrow> session \<Rightarrow> session outcome" where
  "start cfg rsp kw =
     steps [
       (\<lambda>s. case kw_channel_id kw of
               None \<Rightarrow>
                 Done ((fst s)\<lparr>cc_channel := Some (next_channel_id rsp)\<rparr>,
                       perform (CreateTextChannel (cc_guild (fst s)) (next_channel_id rsp)) (snd s))
             | Some cid \<Rightarrow>
                 Done ((fst s)\<lparr>cc_channel :=
                          List.find (\<lambda>ch. ch = cid) (text_channels_of (snd s) (cc_guild (fst s)))\<rparr>,
                       snd s)),
       (\<lambda>s. if truthy (kw_tries kw) then Done ((fst s)\<lparr>cc_tries := the (kw_tries kw)\<rparr>, snd s)
             else Done s),
       (\<lambda>s. if truthy (kw_member_id kw) then
               (case get_member (snd s) (cc_guild (fst s)) (the (kw_member_id kw)) of
                  None \<Rightarrow> Done s
                | Some m \<Rightarrow> start_session cfg rsp kw ((fst s)\<lparr>cc_member := Some m\<rparr>, snd s))
             else start_session cfg rsp kw s)]"

text \<open>
  The keyword arguments \<^verbatim>\<open>CaptchaModule.load\<close> passes to \<^verbatim>\<open>start\<close> for a stored
  record that is still active.
\<close>

definition kwargs_of_record :: "channel_doc \<Rightarrow> start_kwargs" where
  "kwargs_of_record entry = \<lparr>kw_channel_id = Some (cd_channel_id entry),
     kw_tries = Some (cd_tries entry), kw_member_id = Some (cd_member_id entry),
     kw_completed = Some (cd_completed entry), kw_ttl = Some (cd_ttl entry)\<rparr>"

section \<open>GatewayGuild: one holding area\<close>

text \<open>
  A gateway guild owns the dictionary \<^verbatim>\<open>_captcha_channels\<close> from member ids to
  sessions. The dictionary holds the session objects themselves, so what a session's
  handler mutates is seen through the dictionary, also when the handler raises.
\<close>

record gateway_guild =
  gg_id :: int
  gg_captcha_channels :: "int \<rightharpoonup> captcha_channel"

type_synonym guild_state = "gateway_guild \<times> world"

definition has_captcha_channel :: "gateway_guild \<Rightarrow> int \<Rightarrow> bool" where
  "has_captcha_channel g member_id = (gg_captcha_channels g member_id \<noteq> None)"

definition create_captcha_channel ::
  "config \<Rightarrow> member \<Rightarrow> gateway_guild \<Rightarrow> gateway_guild \<times> captcha_channel" where
  "create_captcha_channel cfg for_member g =
     (let c = captcha_channel_init cfg (gg_id g) (Some for_member) in
      (g\<lparr>gg_captcha_channels := (gg_captcha_channels g)(m_id for_member \<mapsto> c)\<rparr>, c))"

text \<open>Running a session's handler on the session stored for a member.\<close>

definition in_session ::
  "int \<Rightarrow> (session \<Rightarrow> session outcome) \<Rightarrow> captcha_channel \<Rightarrow> guild_state \<Rightarrow> guild_state outcome" where
  "in_session member_id f c s =
     (case f (c, snd s) of
        Done (c', w') \<Rightarrow>
          Done ((fst s)\<lparr>gg_captcha_channels := (gg_captcha_channels (fst s))(member_id \<mapsto> c')\<rparr>, w')
      | Raised e (c', w') \<Rightarrow>
          Raised e ((fst s)\<lparr>gg_captcha_channels := (gg_captcha_channels (fst s))(member_id \<mapsto> c')\<rparr>, w'))"

definition delete_captcha_channel :: "member \<Rightarrow> guild_state \<Rightarrow> guild_state outcome" where
  "delete_captcha_channel m s =
     (case gg_captcha_channels (fst s) (m_id m) of
        None \<Rightarrow> Raised KeyError s
      | Some c \<Rightarrow>
          steps [
            in_session (m_id m) destory c,
            (\<lambda>s. Done ((fst s)\<lparr>gg_captcha_channels := (gg_captcha_channels (fst s))(m_id m := None)\<rparr>,
                        snd s))] s)"

text \<open>
  \<^verbatim>\<open>CaptchaModule.announce\<close>: sent only when an announcement channel is set. The text
  of the population announcement (the guild's name and its members) is kept as a
  template name.
\<close>

definition announce :: "message \<Rightarrow> world \<Rightarrow> world" where
  "announce msg w =
     (case announcement_channel w of None \<Rightarrow> w | Some ch \<Rightarrow> perform (Send ch msg) w)"

text \<open>
  \<^verbatim>\<open>GatewayGuild.on_member_join\<close>: the blacklist test, the population announcement, then
  the operator role or a new session. No statement returns between them.
\<close>

definition on_member_join :: "config \<Rightarrow> responses \<Rightarrow> member \<Rightarrow> guild_state \<Rightarrow> guild_state outcome" where
  "on_member_join cfg rsp m =
     steps [
       (\<lambda>s. case get_blacklisted_member_info (m_id m) (db (snd s)) of
               Some blacklist_entry \<Rightarrow>
                 Done (fst s,
                   ban_member m ''Is a blacklisted member. Banned on join attempt.'' (snd s))
             | None \<Rightarrow> Done s),
       (\<lambda>s. if int (length (members_of (snd s) (gg_id (fst s)))) \<in> set [100, 200, 300, 400, 500]
             then Done (fst s, announce (Template ''reached members'') (snd s))
             else Done s),
       (\<lambda>s. if is_operator cfg (m_id m) then
               (case filter (\<lambda>r. str_lower (snd s) r = ''operator'')
                       (roles_of (snd s) (m_guild m)) of
                  [] \<Rightarrow> Done s
                | r # rs \<Rightarrow> Done (fst s, perform (AddRole (m_guild m) (m_id m) r) (snd s)))
             else
               (let (g, c) = create_captcha_channel cfg m (fst s) in
                in_session (m_id m) (start cfg rsp no_kwargs) c (g, snd s)))]"

text \<open>
  \<^verbatim>\<open>GatewayGuild.on_member_leave\<close>. The loop over \<^verbatim>\<open>guild.bans()\<close> returns when the
  member is among the banned users.
\<close>

definition on_member_leave :: "config \<Rightarrow> member \<Rightarrow> guild_state \<Rightarrow> guild_state outcome" where
  "on_member_leave cfg m s =
     (if has_captcha_channel (fst s) (m_id m) then
        steps [
          delete_captcha_channel m,
          (\<lambda>s. if \<not> is_operator cfg (m_id m) then
                  Done (fst s, (snd s)\<lparr>db := update_captcha_counter (clock (snd s)) (m_id m) 1
                                               (db (snd s))\<rparr>)
                else Done s),
          (\<lambda>s. case get_captcha_counter (m_id m) (db (snd s)) of
                  None \<Rightarrow> Done s
                | Some counter_entry \<Rightarrow>
                    if ct_counter counter_entry \<ge> rejoin_limit cfg \<and> \<not> is_operator cfg (m_id m)
                    then
                      (if m_id m \<in> set (bans_of (snd s) (gg_id (fst s))) then Done s
                       else
                         Done (fst s,
                           (let w = snd s;
                                w1 = w\<lparr>db := add_member_to_blacklist (clock w) (m_id m)
                                                 (rejoin_blacklist_duration cfg)
                                                 ''Rejoined a Gateway Guild too often.'' (db w)\<rparr>
                            in ban_member m
                                 (''Banned member '' @ m_name m @ '' for joining and leaving '' @
                                  str (rejoin_limit cfg) @ '' times.'') w1)))
                    else Done s)] s
      else Done s)"

section \<open>TrackerManager: invites of the main guild\<close>

record temporal_entry =
  te_started :: rat
  te_finished :: rat
  te_uses :: "int list"

record tracker_manager =
  tm_invite_cache :: "string \<rightharpoonup> int"
  tm_temporal_cache :: "string \<rightharpoonup> temporal_entry"
  tm_minimum_member_count :: int
  tm_member_join_timeout :: rat

type_synonym tracker_state = "tracker_manager \<times> world"

definition tracker_manager_init :: tracker_manager where
  "tracker_manager_init = \<lparr>tm_invite_cache = Map.empty, tm_temporal_cache = Map.empty,
     tm_minimum_member_count = 0, tm_member_join_timeout = 0\<rparr>"

text \<open>\<^verbatim>\<open>load\<close>: the current invites and their use counts fill the cache.\<close>

definition tracker_load :: "invite list \<Rightarrow> tracker_manager \<Rightarrow> tracker_manager" where
  "tracker_load invites tm =
     tm\<lparr>tm_invite_cache := fold (\<lambda>i cache. cache(inv_code i \<mapsto> inv_uses i)) invites
                               (tm_invite_cache tm)\<rparr>"

definition has_temporal_entry :: "tracker_manager \<Rightarrow> string \<Rightarrow> bool" where
  "has_temporal_entry tm invite_code = (tm_temporal_cache tm invite_code \<noteq> None)"

definition is_registered :: "string \<Rightarrow> world \<Rightarrow> bool" where
  "is_registered invite_code w = is_registered_invitation invite_code (db w)"

definition create_temporal_entry :: "string \<Rightarrow> tracker_state \<Rightarrow> tracker_state" where
  "create_temporal_entry invite_code s =
     ((fst s)\<lparr>tm_temporal_cache := (tm_temporal_cache (fst s))(invite_code \<mapsto>
        \<lparr>te_started = clock (snd s),
         te_finished = clock (snd s) + tm_member_join_timeout (fst s),
         te_uses = []\<rparr>)\<rparr>, snd s)"

definition add_member_to_temporal_entry :: "string \<Rightarrow> int \<Rightarrow> tracker_state \<Rightarrow> tracker_state outcome" where
  "add_member_to_temporal_entry invite_code member_id s =
     (case tm_temporal_cache (fst s) invite_code of
        None \<Rightarrow> Raised KeyError s
      | Some entry \<Rightarrow>
          Done ((fst s)\<lparr>tm_temporal_cache := (tm_temporal_cache (fst s))(invite_code \<mapsto>
                   entry\<lparr>te_uses := te_uses entry @ [member_id]\<rparr>)\<rparr>, snd s))"

definition remove_temporal_entry :: "string \<Rightarrow> tracker_state \<Rightarrow> tracker_state outcome" where
  "remove_temporal_entry invite_code s =
     (case tm_temporal_cache (fst s) invite_code of
        None \<Rightarrow> Raised KeyError s
      | Some entry \<Rightarrow>
          Done ((fst s)\<lparr>tm_temporal_cache := (tm_temporal_cache (fst s))(invite_code := None)\<rparr>,
                snd s))"

text \<open>
  The loop over the platform's invites: an unseen code is cached with its count, a cached
  code whose count exceeds the cached one is the invite used (the last such one wins; its
  cached count stays).
\<close>

fun scan_invites ::
  "invite list \<Rightarrow> (string \<rightharpoonup> int) \<times> invite option \<Rightarrow> (string \<rightharpoonup> int) \<times> invite option" where
  "scan_invites [] acc = acc"
| "scan_invites (i # rest) (cache, invite_used) =
     scan_invites rest
       (case cache (inv_code i) of
          None \<Rightarrow> (cache(inv_code i \<mapsto> inv_uses i), invite_used)
        | Some uses \<Rightarrow> (cache, if inv_uses i > uses then Some i else invite_used))"

text \<open>
  What \<^verbatim>\<open>invite\<close> is bound to in the loop over an entry's members:
  \<^verbatim>\<open>get_invitation_to_gateway\<close> is an \<^verbatim>\<open>async def\<close> and the call is not awaited, so
  the value is the coroutine object, which has no attribute \<^verbatim>\<open>url\<close>.
\<close>

datatype pyref = InviteRef invite | CoroutineRef

fun url_of :: "pyref \<Rightarrow> error + string" where
  "url_of (InviteRef i) = Inr (inv_url i)"
| "url_of CoroutineRef = Inl AttributeError"

fun dm_and_kick :: "int \<Rightarrow> int list \<Rightarrow> tracker_state \<Rightarrow> tracker_state outcome" where
  "dm_and_kick g [] s = Done s"
| "dm_and_kick g (member_id # rest) s =
     (case get_member (snd s) g member_id of
        None \<Rightarrow> Raised AttributeError s
      | Some e_member \<Rightarrow>
          (let w1 = (case dm_channel_of (snd s) member_id of
                       None \<Rightarrow> perform (CreateDM member_id) (snd s)
                     | Some dm \<Rightarrow> snd s)
           in case url_of CoroutineRef of
                Inl e \<Rightarrow> Raised e (fst s, w1)
              | Inr url \<Rightarrow>
                  dm_and_kick g rest
                    (fst s,
                     perform (Kick g member_id)
                       (perform (DirectMessage member_id
                          (Replace (Template ''used_unregistered_message'') ''{invite}'' url)) w1))))"

text \<open>
  The evaluation of the entry at the end of \<^verbatim>\<open>TrackerManager.on_member_join\<close>
  (\<^verbatim>\<open>entry = self.get_temporal_entry(...)\<close> and the \<^verbatim>\<open>if\<close>/\<^verbatim>\<open>elif\<close> on
  \<^verbatim>\<open>entry["finished"]\<close>).
\<close>

definition evaluate_entry :: "invite \<Rightarrow> member \<Rightarrow> tracker_state \<Rightarrow> tracker_state outcome" where
  "evaluate_entry invite_used m s =
     (case tm_temporal_cache (fst s) (inv_code invite_used) of
        None \<Rightarrow> Raised KeyError s
      | Some entry \<Rightarrow>
          if te_finished entry \<le> clock (snd s) then
            (if int (length (te_uses entry)) \<ge> tm_minimum_member_count (fst s) then
               steps [
                 dm_and_kick (m_guild m) (te_uses entry),
                 remove_temporal_entry (inv_code invite_used),
                 (\<lambda>s. Done (fst s, perform (DeleteInvite (inv_code invite_used)) (snd s)))] s
             else Done s)
          else if te_finished entry > clock (snd s) then
            remove_temporal_entry (inv_code invite_used) s
          else Done s)"

definition tracker_on_member_join ::
  "config \<Rightarrow> member \<Rightarrow> invite list \<Rightarrow> tracker_state \<Rightarrow> tracker_state outcome" where
  "tracker_on_member_join cfg m invites s =
     (if m_guild m \<noteq> main_server cfg then Done s
      else
        (let (cache, used) = scan_invites invites (tm_invite_cache (fst s), None);
             s1 = ((fst s)\<lparr>tm_invite_cache := cache\<rparr>, snd s)
         in case used of
              None \<Rightarrow> Done s1
            | Some invite_used \<Rightarrow>
                if is_registered (inv_code invite_used) (snd s1) then Done s1
                else
                  steps [
                    (\<lambda>s. if has_temporal_entry (fst s) (inv_code invite_used) = False
                          then Done (create_temporal_entry (inv_code invite_used) s)
                          else Done s),
                    add_member_to_temporal_entry (inv_code invite_used) (m_id m),
                    evaluate_entry invite_used m] s1))"

section \<open>CaptchaModule: the periodic unban task\<close>

text \<open>\<^verbatim>\<open>CaptchaModule.unban\<close> over the ids of the managed gateway guilds.\<close>

definition unban :: "int list \<Rightarrow> int \<Rightarrow> world \<Rightarrow> world" where
  "unban guild_ids member_id w =
     fold (\<lambda>g w. if member_id \<in> set (bans_of w g)
                  then (perform (Unban g member_id) w)
                         \<lparr>bans_of := (bans_of w)(g := removeAll member_id (bans_of w g))\<rparr>
                  else w) guild_ids w"

text \<open>
  The first loop of \<^verbatim>\<open>unban_task\<close>, over the blacklist as read at the start of the task:
  an entry whose end has come is unbanned everywhere and one blacklist document of its
  member is deleted.
\<close>

definition sweep_entry :: "int list \<Rightarrow> rat \<Rightarrow> blacklist_entry \<Rightarrow> world \<Rightarrow> world" where
  "sweep_entry guild_ids now entry w =
     (if bl_ends entry \<le> now then
        (let w1 = unban guild_ids (bl_mid entry) w
         in w1\<lparr>db := remove_member_from_blacklist (bl_mid entry) (db w1)\<rparr>)
      else w)"

definition sweep_counter :: "int list \<Rightarrow> int \<Rightarrow> counter_entry \<Rightarrow> world \<Rightarrow> world" where
  "sweep_counter guild_ids cooldown entry w =
     (if ct_updated_at entry + of_int cooldown \<le> clock w then
        (let w1 = unban guild_ids (ct_mid entry) w;
             w2 = w1\<lparr>db := remove_member_from_blacklist (ct_mid entry) (db w1)\<rparr>
         in unban guild_ids (ct_mid entry) w2)
      else w)"

text \<open>
  \<^verbatim>\<open>unban_task\<close>. The cooldown is read after the first loop; a settings document
  without the key raises there. The closing \<^verbatim>\<open>delete_many({"mid": mids})\<close> compares the
  integer field with the list itself and so deletes no cached name.
\<close>

definition unban_task :: "config \<Rightarrow> int list \<Rightarrow> world \<Rightarrow> world outcome" where
  "unban_task cfg guild_ids w =
     (let blacklist = get_blacklist (db w);
          now = clock w;
          w1 = fold (sweep_entry guild_ids now) blacklist w
      in case rejoin_cooldown cfg of
           None \<Rightarrow> Raised KeyError w1
         | Some cooldown \<Rightarrow>
             Done (fold (sweep_counter guild_ids cooldown) (get_captcha_counters (db w1)) w1))"

section \<open>Concrete inputs\<close>

text \<open>
  The main guild is guild 1 and the gateway guild is guild 2. Member 7 is an ordinary
  member of the gateway guild; the settings are the defaults with the landing channel
  of the main guild set to channel 10. All text of the scenarios is ASCII.
\<close>

definition example_world :: world where
  "example_world = \<lparr>clock = 0, db = empty_db, oplog = [], members_of = (\<lambda>g. []),
     bans_of = (\<lambda>g. []), roles_of = (\<lambda>g. []),
     text_channels_of = (\<lambda>g. if g = 1 then [10] else []),
     dm_channel_of = (\<lambda>u. None), announcement_channel = None, logger_callable = False,
     str_lower = ascii_lower\<rparr>"

definition example_config :: config where
  "example_config = (default_config 1)\<lparr>main_guild_landing_channel := Some 10\<rparr>"

definition example_responses :: responses where
  "example_responses = \<lparr>next_captcha_text = ''qwerty'', next_invite_code = ''once'',
     next_channel_id = 50\<rparr>"

definition example_member :: member where
  "example_member = \<lparr>m_id = 7, m_name = ''bob'', m_display_name = ''Bob'', m_guild = 2\<rparr>"

definition example_guild :: gateway_guild where
  "example_guild = \<lparr>gg_id = 2, gg_captcha_channels = Map.empty\<rparr>"

text \<open>
  A session of member 7 as \<^verbatim>\<open>start()\<close> leaves it: channel 50, the secret
  \<open>abcdef\<close> rendered, five tries, the countdown running.
\<close>

definition example_session :: captcha_channel where
  "example_session = \<lparr>cc_member = Some example_member, cc_guild = 2, cc_channel = Some 50,
     cc_answer_text = Some ''abcdef'', cc_started = True, cc_tries = 5, cc_invite = None,
     cc_completed = False, cc_ttl = 900, cc_internal_clock = 0, cc_active = True,
     cc_countdown = True\<rparr>"

text \<open>The record \<^verbatim>\<open>add_captcha_channel\<close> stored for that session.\<close>

definition example_doc :: channel_doc where
  "example_doc = \<lparr>cd_guild_id = 2, cd_channel_id = 50, cd_member_id = 7, cd_tries = 5,
     cd_active = True, cd_ttl = 900, cd_completed = False, cd_failed = False,
     cd_created_at = 0, cd_last_updated = None\<rparr>"

definition example_session_world :: world where
  "example_session_world = example_world\<lparr>db := empty_db\<lparr>captcha_channels := [example_doc]\<rparr>\<rparr>"

text \<open>
  Scenario D: the invite \<open>raid\<close> of the main guild is not registered and is cached with
  no uses; the tracker counts an attack from 5 members within 60 seconds. Join \<open>k\<close>
  happens at second \<open>k\<close>: member \<open>100 + k\<close> is then in the main guild and the invite
  shows \<open>k\<close> uses.
\<close>

definition raid_invite :: "int \<Rightarrow> invite" where
  "raid_invite n = \<lparr>inv_code = ''raid'', inv_uses = n, inv_max_age = 0, inv_max_uses = 0\<rparr>"

definition joiner :: "int \<Rightarrow> member" where
  "joiner k = \<lparr>m_id = 100 + k, m_name = ''joiner'', m_display_name = ''joiner'',
     m_guild = 1\<rparr>"

definition join_at :: "config \<Rightarrow> int \<Rightarrow> tracker_state \<Rightarrow> tracker_state outcome" where
  "join_at cfg k s =
     tracker_on_member_join cfg (joiner k) [raid_invite k]
       (fst s, (snd s)\<lparr>clock := of_int k,
                        members_of := (members_of (snd s))(1 := members_of (snd s) 1 @ [joiner k])\<rparr>)"

definition scenario_d_tracker :: tracker_manager where
  "scenario_d_tracker =
     tracker_load [raid_invite 0]
       (tracker_manager_init\<lparr>tm_minimum_member_count := 5, tm_member_join_timeout := 60\<rparr>)"

text \<open>The operations a handler added to the log of the world it started from.\<close>

definition performed :: "world \<Rightarrow> world \<Rightarrow> action list" where
  "performed w w' = drop (length (oplog w)) (oplog w')"

text \<open>
  The session after member 7 has typed the secret in capitals, and the handler of a
  message that is not the secret.
\<close>

definition wrong_message :: "session \<Rightarrow> session outcome" where
  "wrong_message = on_message example_config example_responses ''wrong''"

definition completed_session :: session where
  "completed_session =
     state_of (on_message example_config example_responses ''ABCDEF''
                 (example_session, example_session_world))"

text \<open>
  A restart inside the grace delay of ten seconds that follows the last wrong answer: the
  stored record of channel 50 has no tries left and is still active, member 7 is still in
  the gateway guild, and 300 seconds remain.
\<close>

definition grace_record :: channel_doc where
  "grace_record = example_doc\<lparr>cd_tries := 0, cd_ttl := 300, cd_last_updated := Some 0\<rparr>"

definition recovery_world :: world where
  "recovery_world = example_world\<lparr>
     members_of := (\<lambda>g. if g = 2 then [example_member] else []),
     text_channels_of := (\<lambda>g. if g = 1 then [10] else if g = 2 then [50] else []),
     db := empty_db\<lparr>captcha_channels := [grace_record]\<rparr>\<rparr>"

text \<open>
  Member 7 holds a blacklist entry. In \<open>blacklisted_world\<close> the entry runs until second
  86400 and the clock shows 1000; in \<open>stale_world\<close> the entry ended at second 900, the
  clock shows 1000 and the sweep has not run yet.
\<close>

definition blacklisted_world :: world where
  "blacklisted_world = example_world\<lparr>clock := 1000,
     db := empty_db\<lparr>captcha_blacklist :=
       [\<lparr>bl_mid = 7, bl_started = 0, bl_ends = 86400,
         bl_reason = ''Failed to complete Captcha assessment.''\<rparr>]\<rparr>\<rparr>"

definition stale_world :: world where
  "stale_world = example_world\<lparr>clock := 1000,
     db := empty_db\<lparr>captcha_blacklist :=
       [\<lparr>bl_mid = 7, bl_started = 0, bl_ends = 900,
         bl_reason = ''Failed to complete Captcha assessment.''\<rparr>]\<rparr>\<rparr>"

text \<open>
  Scenario E: member 7 has a session in the gateway guild and has left twice before
  (the rejoin limit is 3); \<open>rejoined\<close> gives member 7 a session again.
\<close>

definition leaving_guild :: gateway_guild where
  "leaving_guild = example_guild\<lparr>gg_captcha_channels := [7 \<mapsto> example_session]\<rparr>"

definition leaving_world :: world where
  "leaving_world = example_session_world\<lparr>clock := 100,
     db := (db example_session_world)\<lparr>captcha_counter :=
             [\<lparr>ct_mid = 7, ct_counter = 2, ct_updated_at = 0\<rparr>]\<rparr>\<rparr>"

definition rejoined :: "guild_state \<Rightarrow> guild_state" where
  "rejoined s = ((fst s)\<lparr>gg_captcha_channels := [7 \<mapsto> example_session]\<rparr>, snd s)"

text \<open>
  The world after the first two statements of \<^verbatim>\<open>GatewayGuild.on_member_join\<close>: the ban
  of a blacklisted member and the population announcement.
\<close>

definition join_prelude :: "member \<Rightarrow> gateway_guild \<Rightarrow> world \<Rightarrow> world" where
  "join_prelude m g w =
     (let w1 = (case get_blacklisted_member_info (m_id m) (db w) of
                  Some e \<Rightarrow> ban_member m ''Is a blacklisted member. Banned on join attempt.'' w
                | None \<Rightarrow> w)
      in if int (length (members_of w1 (gg_id g))) \<in> set [100, 200, 300, 400, 500]
         then announce (Template ''reached members'') w1 else w1)"

section \<open>Registered invitations and the tracker\<close>

lemma is_registered_invitation_holds: "is_registered_invitation invite_code dm"
  by (simp add: is_registered_invitation_def)

lemma tracker_on_member_join_returns:
  "tracker_on_member_join cfg m invites (tm, w) =
     Done (if m_guild m \<noteq> main_server cfg then tm
           else tm\<lparr>tm_invite_cache := fst (scan_invites invites (tm_invite_cache tm, None))\<rparr>, w)"
  by (simp add: tracker_on_member_join_def is_registered_def is_registered_invitation_def Let_def
      split: prod.splits option.splits)

text \<open>
  C3 (the code departs from the claim). The claim: the registered-invitation check is true
  exactly for the codes added and not since removed. In the code the check is true for
  every code: for \<open>abc\<close> on an empty collection, and for \<open>abc\<close> after it was added and
  removed again; the tracker's \<open>is_registered\<close> answers the same.
\<close>

theorem is_registered_invitation_unregistered_code:
  "is_registered_invitation ''abc'' empty_db
   \<and> registered_invitations empty_db = []
   \<and> is_registered_invitation ''abc''
       (remove_registered_invitation ''abc'' (add_registered_invitation ''abc'' empty_db))
   \<and> registered_invitations
       (remove_registered_invitation ''abc'' (add_registered_invitation ''abc'' empty_db)) = []
   \<and> is_registered ''abc'' example_world"
  by (simp add: is_registered_invitation_def is_registered_def empty_db_def example_world_def
      add_registered_invitation_def remove_registered_invitation_def mongo_insert_one_def)

text \<open>
  Without the registered check, a join inside the window of its entry deletes the entry
  (the \<^verbatim>\<open>elif\<close> branch), and a confirmed attack raises at the first listed member.
\<close>

lemma evaluate_entry_inside_window:
  "tm_temporal_cache tm (inv_code i) = Some entry \<Longrightarrow> clock w < te_finished entry \<Longrightarrow>
   evaluate_entry i m (tm, w) =
     Done (tm\<lparr>tm_temporal_cache := (tm_temporal_cache tm)(inv_code i := None)\<rparr>, w)"
  by (simp add: evaluate_entry_def remove_temporal_entry_def)

lemma dm_and_kick_raises:
  "raised (dm_and_kick g (member_id # rest) s) = Some AttributeError
   \<and> (\<forall>a \<in> set (performed (snd s) (snd (state_of (dm_and_kick g (member_id # rest) s)))).
        a = CreateDM member_id)"
  by (simp add: performed_def perform_def split: option.splits)

lemma join_at_raid:
  "tm_invite_cache tm ''raid'' = Some 0 \<Longrightarrow> 0 < k \<Longrightarrow>
   join_at example_config k (tm, w) =
     Done (tm, w\<lparr>clock := of_int k,
                  members_of := (members_of w)(1 := members_of w 1 @ [joiner k])\<rparr>)"
  by (simp add: join_at_def tracker_on_member_join_returns joiner_def raid_invite_def
      example_config_def default_config_def)

lemma scenario_d_cache: "tm_invite_cache scenario_d_tracker ''raid'' = Some 0"
  by (simp add: scenario_d_tracker_def tracker_load_def tracker_manager_init_def raid_invite_def)

lemma scenario_d_run:
  "\<exists>w. steps (map (join_at example_config) [1, 2, 3, 4, 5, 6, 7, 8, 9, 10, 100])
         (scenario_d_tracker, example_world) = Done (scenario_d_tracker, w) \<and> oplog w = []"
  by (simp add: join_at_raid scenario_d_cache example_world_def)

text \<open>
  C2 (the code departs from the claim). The claim: ten joins through one unregistered
  invite inside its window, with threshold 5, end with each of the ten members messaged
  and kicked once and the invite deleted once. In the code, after the ten joins of
  scenario D and an eleventh join after the window (second 100), no platform operation
  has been performed and no temporal entry exists.
\<close>

theorem scenario_d_no_kick_no_revoke:
  "oplog (snd (state_of (steps (map (join_at example_config) [1, 2, 3, 4, 5, 6, 7, 8, 9, 10, 100])
                           (scenario_d_tracker, example_world)))) = []
   \<and> tm_temporal_cache (fst (state_of (steps (map (join_at example_config)
                           [1, 2, 3, 4, 5, 6, 7, 8, 9, 10, 100])
                           (scenario_d_tracker, example_world)))) ''raid'' = None
   \<and> raised (steps (map (join_at example_config) [1, 2, 3, 4, 5, 6, 7, 8, 9, 10, 100])
                (scenario_d_tracker, example_world)) = None"
proof -
  obtain w where r: "steps (map (join_at example_config) [1, 2, 3, 4, 5, 6, 7, 8, 9, 10, 100])
         (scenario_d_tracker, example_world) = Done (scenario_d_tracker, w)"
    and l: "oplog w = []"
    using scenario_d_run by blast
  have "tm_temporal_cache scenario_d_tracker ''raid'' = None"
    by (simp add: scenario_d_tracker_def tracker_load_def tracker_manager_init_def)
  with r l show ?thesis by simp
qed

section \<open>The countdown\<close>

lemma alert_raises: "alert s = Raised TypeError s"
  by (simp add: alert_def)

lemma countdown_elapsed_raises: "countdown_elapsed cfg s = Raised TypeError s"
  by (simp add: countdown_elapsed_def)

text \<open>Every run of the loop body lowers the remaining time by one, also when it raises.\<close>

lemma countdown_decrements:
  "cc_ttl (fst (state_of (countdown cfg (c, w)))) = cc_ttl c - 1"
  by (simp add: countdown_def alert_raises countdown_elapsed_raises persist_def with_channel_def
      split: option.splits)

text \<open>
  A tick that leaves a positive time other than 600 (and does not reach the minute of the
  internal clock) changes the two counters and nothing else: no message is sent.
\<close>

lemma countdown_quiet:
  "0 < cc_ttl c - 1 \<Longrightarrow> cc_ttl c - 1 \<noteq> 600 \<Longrightarrow> cc_internal_clock c + 1 < 60 \<Longrightarrow>
   countdown cfg (c, w) =
     Done (c\<lparr>cc_ttl := cc_ttl c - 1, cc_internal_clock := cc_internal_clock c + 1\<rparr>, w)"
  by (simp add: countdown_def alert_raises countdown_elapsed_raises)

text \<open>
  C4 (the code departs from the claim). The claim: a reminder is sent once at each of the
  marks 600, 300, 240, 180, 120, 60, 30, 15, 10 and 5 seconds. In the code, the tick that
  reaches 300, 240, 180, 120, 60, 30, 15, 10 or 5 sends nothing (the world is unchanged),
  and the tick that reaches 600 raises \<open>TypeError\<close> while building the reminder, which
  is not sent either. The remaining time does fall by one in each of these ticks.
\<close>

theorem countdown_no_reminder_at_marks:
  "map (\<lambda>t. countdown example_config (example_session\<lparr>cc_ttl := t + 1\<rparr>, example_session_world))
     [300, 240, 180, 120, 60, 30, 15, 10, 5]
   = map (\<lambda>t. Done (example_session\<lparr>cc_ttl := t, cc_internal_clock := 1\<rparr>, example_session_world))
     [300, 240, 180, 120, 60, 30, 15, 10, 5]
   \<and> countdown example_config (example_session\<lparr>cc_ttl := 601\<rparr>, example_session_world)
     = Raised TypeError (example_session\<lparr>cc_ttl := 600, cc_internal_clock := 1\<rparr>,
         example_session_world)"
  by (simp add: countdown_def alert_def example_session_def)

text \<open>
  C5 (the code departs from the claim). The claim: when the time reaches 0 the member is
  banned, a blacklist entry of the configured \<^verbatim>\<open>blacklist_length\<close> (86400 by default)
  is created and the session is destroyed. In the code, the tick from 1 to 0 raises
  \<open>TypeError\<close> while building the expiry message: the world is unchanged (no ban, no
  blacklist entry, no channel deleted, the record untouched) and the loop is still marked
  running. The statements it would have reached blacklist the member for 900 seconds,
  not for the configured 86400.
\<close>

theorem countdown_expiry_raises:
  "countdown example_config (example_session\<lparr>cc_ttl := 1\<rparr>, example_session_world)
     = Raised TypeError (example_session\<lparr>cc_ttl := 0, cc_internal_clock := 1\<rparr>,
         example_session_world)
   \<and> cc_countdown example_session
   \<and> captcha_blacklist (db example_session_world) = []
   \<and> oplog example_session_world = []
   \<and> captcha_blacklist (db (snd (state_of
         (expire example_config (Template ''time_elapsed_message'')
            (example_session\<lparr>cc_ttl := 0\<rparr>, example_session_world)))))
       = [\<lparr>bl_mid = 7, bl_started = 0, bl_ends = 900,
           bl_reason = ''Failed to complete Captcha assessment.''\<rparr>]
   \<and> blacklist_length example_config = 86400"
  by (simp add: countdown_def countdown_elapsed_def example_session_def example_session_world_def
      example_world_def example_config_def default_config_def expire_def channel_send_def
      with_channel_def with_member_def persist_def destory_def perform_def ban_member_def
      add_member_to_blacklist_def is_operator_def example_member_def empty_db_def
      update_captcha_channel_def mongo_insert_one_def example_doc_def)

section \<open>Answers\<close>

lemma find_eq_member: "x \<in> set xs \<Longrightarrow> List.find (\<lambda>y. y = x) xs = Some x"
  by (induction xs) auto

lemma lower_upper_example: "ascii_lower ''ABCDEF'' = ''abcdef''"
  by code_simp

lemma lower_wrong_example: "ascii_lower ''wrong'' = ''wrong''"
  by code_simp

lemma str_examples: "str 5 = ''5''" "str 4 = ''4''" "str 3 = ''3''" "str 2 = ''2''"
  "str 1 = ''1''" "str 0 = ''0''"
  by code_simp+

text \<open>
  A message to a session that has not been started, or that has no challenge rendered,
  is ignored: the handler returns with the session and the world as they were.
\<close>

lemma on_message_ignored:
  "\<not> cc_started c \<or> cc_answer_text c = None \<Longrightarrow>
   on_message cfg rsp content (c, w) = Done (c, w)"
  by (auto simp: on_message_def)

text \<open>
  The matching answer when the configured landing channel of the main guild exists: one
  invite with \<open>max_age = 120\<close> and \<open>max_uses = 1\<close>, the completed flag, the completion
  message and the record. The loop flag \<open>cc_countdown\<close> is not among the fields changed.
\<close>

lemma on_message_match_outcome:
  assumes "cc_started c" and "cc_answer_text c = Some answer"
    and "str_lower w content = answer"
    and "cc_channel c = Some ch" and "main_guild_landing_channel cfg = Some lc"
    and "lc \<in> set (text_channels_of w (main_server cfg))"
  shows "on_message cfg rsp content (c, w) =
     Done (c\<lparr>cc_invite := Some \<lparr>inv_code = next_invite_code rsp, inv_uses = 0,
                                 inv_max_age = 120, inv_max_uses = 1\<rparr>,
              cc_completed := True\<rparr>,
           w\<lparr>oplog := oplog w @
                [CreateInvite lc 120 1,
                 Send ch (Replace (Template ''completed_captcha_message'') ''{invite_url}''
                            (inv_url \<lparr>inv_code = next_invite_code rsp, inv_uses = 0,
                                      inv_max_age = 120, inv_max_uses = 1\<rparr>))],
              db := update_captcha_channel (clock w) (cc_guild c) ch
                      (\<lambda>d. d\<lparr>cd_active := False, cd_completed := True, cd_failed := False,
                              cd_ttl := 0\<rparr>) (db w)\<rparr>)"
  using assms
  by (simp add: on_message_def create_tldr_invite_def find_eq_member channel_send_def
      with_channel_def persist_def perform_def)

text \<open>
  The matching answer when the landing channel is not configured (the default settings)
  or does not exist: the handler raises before the completed flag is set, whatever the
  logger is.
\<close>

lemma on_message_match_no_landing_channel:
  assumes "cc_started c" and "cc_answer_text c = Some answer"
    and "str_lower w content = answer"
    and "main_guild_landing_channel cfg = None"
  shows "on_message cfg rsp content (c, w) =
     (if logger_callable w then Raised AttributeError (c\<lparr>cc_invite := None\<rparr>, w)
      else Raised TypeError (c, w))"
  using assms by (simp add: on_message_def create_tldr_invite_def)

lemma completed_session_eq:
  "completed_session =
     (example_session\<lparr>cc_invite := Some \<lparr>inv_code = ''once'', inv_uses = 0, inv_max_age = 120,
                                          inv_max_uses = 1\<rparr>,
                      cc_completed := True\<rparr>,
      example_session_world\<lparr>oplog :=
          [CreateInvite 10 120 1,
           Send 50 (Replace (Template ''completed_captcha_message'') ''{invite_url}''
                      ''https://discord.gg/once'')],
        db := empty_db\<lparr>captcha_channels :=
          [example_doc\<lparr>cd_active := False, cd_completed := True, cd_failed := False,
                       cd_ttl := 0, cd_last_updated := Some 0\<rparr>]\<rparr>\<rparr>)"
  unfolding completed_session_def
  by (subst on_message_match_outcome [where answer = "''abcdef''" and ch = 50 and lc = 10])
     (simp_all add: lower_upper_example example_session_def example_config_def
        default_config_def example_session_world_def example_world_def example_responses_def
        update_captcha_channel_def example_doc_def inv_url_def empty_db_def)

text \<open>
  C6 (the code departs from the claim). The claim: the matching answer completes the
  session and destroys it, so that no further countdown tick fires against it. In the
  code, after the matching answer of member 7 the session is completed and its record
  says so, but its loop is still running and the next tick fires against it as before
  (899 seconds remain). With the default settings, where no landing channel is
  configured, the matching answer raises instead: no invite is issued, the session is
  not completed and nothing is written.
\<close>

theorem completed_session_countdown_runs:
  "has_completed_captcha (fst completed_session)
   \<and> map cd_completed (captcha_channels (db (snd completed_session))) = [True]
   \<and> cc_countdown (fst completed_session)
   \<and> countdown example_config completed_session
       = Done ((fst completed_session)\<lparr>cc_ttl := 899, cc_internal_clock := 1\<rparr>,
               snd completed_session)
   \<and> main_guild_landing_channel (default_config 1) = None
   \<and> on_message (default_config 1) example_responses ''ABCDEF''
        (example_session, example_session_world)
       = Raised TypeError (example_session, example_session_world)
   \<and> on_message (default_config 1) example_responses ''ABCDEF''
        (example_session, example_session_world\<lparr>logger_callable := True\<rparr>)
       = Raised AttributeError
           (example_session, example_session_world\<lparr>logger_callable := True\<rparr>)"
proof -
  have a: "str_lower example_session_world ''ABCDEF'' = ''abcdef''"
    "str_lower (example_session_world\<lparr>logger_callable := True\<rparr>) ''ABCDEF'' = ''abcdef''"
    by (simp_all add: example_session_world_def example_world_def lower_upper_example)
  have n: "main_guild_landing_channel (default_config 1) = None"
    by (simp add: default_config_def)
  have s: "cc_started example_session" "cc_answer_text example_session = Some ''abcdef''"
    "example_session\<lparr>cc_invite := None\<rparr> = example_session"
    by (simp_all add: example_session_def)
  have l: "\<not> logger_callable example_session_world"
    by (simp add: example_session_world_def example_world_def)
  show ?thesis
    unfolding on_message_match_no_landing_channel [OF s(1) s(2) a(1) n]
      on_message_match_no_landing_channel [OF s(1) s(2) a(2) n]
    by (simp add: completed_session_eq has_completed_captcha_def example_session_def
        countdown_def n l)
qed

lemma wrong_message_step:
  assumes "cc_started c" and "cc_answer_text c = Some answer" and "answer \<noteq> ''wrong''"
    and "cc_channel c = Some 50" and "cc_guild c = 2" and "1 < cc_tries c"
    and "str_lower w = ascii_lower"
  shows "wrong_message (c, w) =
     Done (c\<lparr>cc_tries := cc_tries c - 1, cc_answer_text := Some ''qwerty''\<rparr>,
           w\<lparr>oplog := oplog w @
                [Send 50 (Template ''Incorrect.''),
                 SendFile 50 ''qwerty''
                   (Replace (Replace (Template ''captcha_message_embed_title'')
                      ''{current_try}'' (str (cc_tries c - 1)))
                      ''{tries_left}'' (str (cc_tries c - 1 - 1)))],
              db := update_captcha_channel (clock w) 2 50 (\<lambda>d. d\<lparr>cd_tries := cc_tries c - 1\<rparr>)
                      (db w)\<rparr>)"
  using assms
  by (simp add: wrong_message_def on_message_def lower_wrong_example channel_send_def
      with_channel_def persist_def perform_def send_captcha_message_def construct_embed_def
      get_tries_def example_responses_def)

lemma last_wrong_message_step:
  assumes "cc_started c" and "cc_answer_text c = Some answer" and "answer \<noteq> ''wrong''"
    and "cc_channel c = Some 50" and "cc_guild c = 2" and "cc_tries c = 1"
    and "cc_member c = Some example_member"
    and "str_lower w = ascii_lower"
  shows "wrong_message (c, w) =
     Done (c\<lparr>cc_tries := 0\<rparr>,
           w\<lparr>clock := clock w + 10,
             oplog := oplog w @
                [Send 50 (Template ''Incorrect.''),
                 Send 50 (Template ''failed_captcha_message''),
                 Ban 2 7 ''Failed to complete Captcha assessment; failed to complete the assessment in time..''],
             bans_of := (bans_of w)(2 :=
                (if 7 \<in> set (bans_of w 2) then bans_of w 2 else bans_of w 2 @ [7])),
             db := add_member_to_blacklist (clock w + 10) 7 86400
                     ''Failed to complete Captcha assessment; failed to complete the assessment in time..''
                     (add_blacklisted_member 7 ''Bob''
                        (update_captcha_channel (clock w + 10) 2 50
                           (\<lambda>d. d\<lparr>cd_active := False, cd_completed := False, cd_failed := True\<rparr>)
                           (update_captcha_channel (clock w) 2 50 (\<lambda>d. d\<lparr>cd_tries := 0\<rparr>)
                              (db w))))\<rparr>)"
  using assms
  by (simp add: wrong_message_def on_message_def lower_wrong_example channel_send_def
      with_channel_def with_member_def persist_def perform_def send_captcha_message_def
      example_responses_def is_operator_def example_config_def default_config_def
      example_member_def ban_member_def Let_def)

text \<open>
  C9 (the code departs from the claim). The claim: a message to a session in a terminal
  state such as Completed is ignored. In the code the completed session of member 7 is
  still started with a challenge rendered, so a wrong message is taken as an answer: the
  tries fall from 5 to 4, \<open>Incorrect.\<close> and a new captcha are posted and the record's
  tries are rewritten. Five wrong messages ban and blacklist the member who had passed.
\<close>

theorem completed_session_still_answers:
  "has_completed_captcha (fst completed_session)
   \<and> cc_tries (fst completed_session) = 5
   \<and> cc_tries (fst (state_of (wrong_message completed_session))) = 4
   \<and> performed (snd completed_session) (snd (state_of (wrong_message completed_session)))
       = [Send 50 (Template ''Incorrect.''),
          SendFile 50 ''qwerty''
            (Replace (Replace (Template ''captcha_message_embed_title'')
               ''{current_try}'' ''4'') ''{tries_left}'' ''3'')]
   \<and> map cd_tries (captcha_channels (db (snd (state_of (wrong_message completed_session)))))
       = [4]
   \<and> raised (steps [wrong_message, wrong_message, wrong_message, wrong_message, wrong_message]
               completed_session) = None
   \<and> last (oplog (snd (state_of
        (steps [wrong_message, wrong_message, wrong_message, wrong_message, wrong_message]
           completed_session))))
       = Ban 2 7 ''Failed to complete Captcha assessment; failed to complete the assessment in time..''
   \<and> captcha_blacklist (db (snd (state_of
        (steps [wrong_message, wrong_message, wrong_message, wrong_message, wrong_message]
           completed_session))))
       = [\<lparr>bl_mid = 7, bl_started = 10, bl_ends = 86410,
           bl_reason = ''Failed to complete Captcha assessment; failed to complete the assessment in time..''\<rparr>]"
  by (simp add: completed_session_eq has_completed_captcha_def example_session_def
      wrong_message_step last_wrong_message_step str_examples
      performed_def example_session_world_def example_world_def
      update_captcha_channel_def example_doc_def empty_db_def
      add_member_to_blacklist_def add_blacklisted_member_def mongo_insert_one_def)

section \<open>Tries\<close>

text \<open>Answers never raise the tries and never take them below zero; ticks leave them.\<close>

lemma on_message_tries:
  "0 \<le> cc_tries c \<Longrightarrow>
   0 \<le> cc_tries (fst (state_of (on_message cfg rsp content (c, w))))
   \<and> cc_tries (fst (state_of (on_message cfg rsp content (c, w)))) \<le> cc_tries c"
  by (simp add: on_message_def channel_send_def with_channel_def persist_def
      send_captcha_message_def construct_embed_def with_member_def create_tldr_invite_def
      split: option.splits sum.splits prod.splits)

lemma countdown_tries: "cc_tries (fst (state_of (countdown cfg (c, w)))) = cc_tries c"
  by (simp add: countdown_def alert_def countdown_elapsed_def persist_def with_channel_def
      split: option.splits)

text \<open>
  The record a restart can find: after the last wrong answer and before the grace delay
  the stored tries are 0 and the record is still active.
\<close>

lemma grace_record_arises:
  "captcha_channels (db (snd (state_of (steps [
       channel_send (Template ''Incorrect.''),
       (\<lambda>s. Done ((fst s)\<lparr>cc_tries :=
                (if cc_tries (fst s) > 0 then cc_tries (fst s) - 1 else 0)\<rparr>, snd s)),
       persist (\<lambda>c d. d\<lparr>cd_tries := cc_tries c\<rparr>),
       send_captcha_message example_responses]
     (example_session\<lparr>cc_tries := 1, cc_ttl := 300\<rparr>,
      example_world\<lparr>db := empty_db\<lparr>captcha_channels :=
         [example_doc\<lparr>cd_tries := 1, cd_ttl := 300\<rparr>]\<rparr>\<rparr>))))) = [grace_record]"
  by (simp add: channel_send_def with_channel_def persist_def perform_def example_session_def
      send_captcha_message_def example_world_def update_captcha_channel_def example_doc_def
      empty_db_def grace_record_def)

text \<open>
  C8 (the code departs from the claim). The claim: no operation, a restart restoring a
  snapshot included, ever increases the tries. In the code, restoring the record whose
  tries are 0 gives a running session with 5 tries (and the stored 300 seconds).
\<close>

theorem restart_resets_exhausted_tries:
  "cd_tries grace_record = 0 \<and> cd_active grace_record
   \<and> get_tries (fst (state_of (start example_config example_responses
         (kwargs_of_record grace_record)
         (captcha_channel_init example_config 2 None, recovery_world)))) = 5
   \<and> cc_ttl (fst (state_of (start example_config example_responses
         (kwargs_of_record grace_record)
         (captcha_channel_init example_config 2 None, recovery_world)))) = 300
   \<and> is_active (fst (state_of (start example_config example_responses
         (kwargs_of_record grace_record)
         (captcha_channel_init example_config 2 None, recovery_world))))"
  by (simp add: grace_record_def example_doc_def kwargs_of_record_def start_def
      captcha_channel_init_def recovery_world_def example_world_def get_member_def
      example_member_def start_session_def with_member_def example_config_def
      default_config_def no_kwargs_def channel_send_def with_channel_def perform_def
      send_captcha_message_def construct_embed_def get_tries_def is_active_def)

section \<open>Joining a gateway guild\<close>

lemma start_new_session:
  "start cfg rsp no_kwargs (captcha_channel_init cfg gid (Some m), w) =
     Done ((captcha_channel_init cfg gid (Some m))
             \<lparr>cc_channel := Some (next_channel_id rsp), cc_started := True, cc_countdown := True,
              cc_active := True, cc_answer_text := Some (next_captcha_text rsp)\<rparr>,
           w\<lparr>oplog := oplog w @
                [CreateTextChannel gid (next_channel_id rsp),
                 SendFile (next_channel_id rsp) (next_captcha_text rsp)
                   (Replace (Replace (Template ''captcha_message_embed_title'')
                      ''{current_try}'' (str 5)) ''{tries_left}'' (str 4))],
              db := (db w)\<lparr>captcha_channels := captcha_channels (db w) @
                [\<lparr>cd_guild_id = gid, cd_channel_id = next_channel_id rsp, cd_member_id = m_id m,
                  cd_tries = 5, cd_active = True, cd_ttl = captcha_time_to_live cfg,
                  cd_completed = False, cd_failed = False, cd_created_at = clock w,
                  cd_last_updated = None\<rparr>]\<rparr>\<rparr>)"
  by (simp add: start_def start_session_def no_kwargs_def captcha_channel_init_def with_member_def
      with_channel_def add_captcha_channel_def send_captcha_message_def construct_embed_def
      perform_def get_tries_def is_active_def get_ttl_def mongo_insert_one_def)

lemma on_member_join_steps12:
  "steps ((\<lambda>s. case get_blacklisted_member_info (m_id m) (db (snd s)) of
               Some blacklist_entry \<Rightarrow>
                 Done (fst s,
                   ban_member m ''Is a blacklisted member. Banned on join attempt.'' (snd s))
             | None \<Rightarrow> Done s) #
       (\<lambda>s. if int (length (members_of (snd s) (gg_id (fst s)))) \<in> set [100, 200, 300, 400, 500]
             then Done (fst s, announce (Template ''reached members'') (snd s))
             else Done s) # rest) (g, w) = steps rest (g, join_prelude m g w)"
  by (cases "get_blacklisted_member_info (m_id m) (db w)")
     (simp_all add: join_prelude_def Let_def)

lemma on_member_join_member:
  "\<not> is_operator cfg (m_id m) \<Longrightarrow>
   on_member_join cfg rsp m (g, w) =
     Done (g\<lparr>gg_captcha_channels := (gg_captcha_channels g)(m_id m \<mapsto>
              (captcha_channel_init cfg (gg_id g) (Some m))
                \<lparr>cc_channel := Some (next_channel_id rsp), cc_started := True,
                 cc_countdown := True, cc_active := True,
                 cc_answer_text := Some (next_captcha_text rsp)\<rparr>)\<rparr>,
           (join_prelude m g w)\<lparr>oplog := oplog (join_prelude m g w) @
                [CreateTextChannel (gg_id g) (next_channel_id rsp),
                 SendFile (next_channel_id rsp) (next_captcha_text rsp)
                   (Replace (Replace (Template ''captcha_message_embed_title'')
                      ''{current_try}'' (str 5)) ''{tries_left}'' (str 4))],
              db := (db (join_prelude m g w))\<lparr>captcha_channels :=
                captcha_channels (db (join_prelude m g w)) @
                [\<lparr>cd_guild_id = gg_id g, cd_channel_id = next_channel_id rsp,
                  cd_member_id = m_id m, cd_tries = 5, cd_active = True,
                  cd_ttl = captcha_time_to_live cfg, cd_completed = False, cd_failed = False,
                  cd_created_at = clock (join_prelude m g w), cd_last_updated = None\<rparr>]\<rparr>\<rparr>)"
  unfolding on_member_join_def on_member_join_steps12
  by (simp add: create_captcha_channel_def in_session_def start_new_session Let_def)

lemma join_prelude_str_lower: "str_lower (join_prelude m g w) = str_lower w"
  by (simp add: join_prelude_def Let_def ban_member_def perform_def announce_def
      split: option.splits)

lemma on_member_join_operator:
  "is_operator cfg (m_id m) \<Longrightarrow>
   on_member_join cfg rsp m (g, w) =
     Done (g, case filter (\<lambda>r. str_lower w r = ''operator'') (roles_of (join_prelude m g w) (m_guild m)) of
                [] \<Rightarrow> join_prelude m g w
              | r # rs \<Rightarrow> perform (AddRole (m_guild m) (m_id m) r) (join_prelude m g w))"
  unfolding on_member_join_def on_member_join_steps12
  by (simp add: join_prelude_str_lower split: list.splits)

lemma join_prelude_oplog:
  "oplog (join_prelude m g w) = oplog w @
     (case get_blacklisted_member_info (m_id m) (db w) of
        Some e \<Rightarrow> [Ban (m_guild m) (m_id m) ''Is a blacklisted member. Banned on join attempt.'']
      | None \<Rightarrow> []) @
     (if int (length (members_of w (gg_id g))) \<in> set [100, 200, 300, 400, 500]
      then (case announcement_channel w of None \<Rightarrow> []
            | Some ch \<Rightarrow> [Send ch (Template ''reached members'')])
      else [])"
  by (simp add: join_prelude_def Let_def ban_member_def perform_def announce_def
      split: option.splits)

lemma join_prelude_db: "db (join_prelude m g w) = db w"
  by (simp add: join_prelude_def Let_def ban_member_def perform_def announce_def
      split: option.splits)

lemma join_prelude_clock: "clock (join_prelude m g w) = clock w"
  by (simp add: join_prelude_def Let_def ban_member_def perform_def announce_def
      split: option.splits)

lemma join_prelude_bans:
  "bans_of (join_prelude m g w) =
     (case get_blacklisted_member_info (m_id m) (db w) of
        Some e \<Rightarrow> (bans_of w)(m_guild m :=
          (if m_id m \<in> set (bans_of w (m_guild m)) then bans_of w (m_guild m)
           else bans_of w (m_guild m) @ [m_id m]))
      | None \<Rightarrow> bans_of w)"
  by (simp add: join_prelude_def Let_def ban_member_def perform_def announce_def
      split: option.splits)

lemma get_blacklisted_member_info_iff:
  "(get_blacklisted_member_info mid dm \<noteq> None) = (\<exists>e \<in> set (captcha_blacklist dm). bl_mid e = mid)"
  by (auto simp: get_blacklisted_member_info_def mongo_find_one_def find_None_iff)

lemma on_member_join_operator_oplog:
  "is_operator cfg (m_id m) \<Longrightarrow>
   oplog (snd (state_of (on_member_join cfg rsp m (g, w)))) =
     oplog (join_prelude m g w) @
       (case filter (\<lambda>r. str_lower w r = ''operator'') (roles_of (join_prelude m g w) (m_guild m)) of
          [] \<Rightarrow> [] | r # rs \<Rightarrow> [AddRole (m_guild m) (m_id m) r])"
  by (cases "filter (\<lambda>r. str_lower w r = ''operator'') (roles_of (join_prelude m g w) (m_guild m))")
     (simp_all add: on_member_join_operator perform_def)

lemma performed_append: "oplog w' = oplog w @ xs \<Longrightarrow> performed w w' = xs"
  by (simp add: performed_def)

lemma on_member_join_performed:
  "performed w (snd (state_of (on_member_join cfg rsp m (g, w)))) =
     (case get_blacklisted_member_info (m_id m) (db w) of
        Some e \<Rightarrow> [Ban (m_guild m) (m_id m) ''Is a blacklisted member. Banned on join attempt.'']
      | None \<Rightarrow> []) @
     (if int (length (members_of w (gg_id g))) \<in> set [100, 200, 300, 400, 500]
      then (case announcement_channel w of None \<Rightarrow> []
            | Some ch \<Rightarrow> [Send ch (Template ''reached members'')])
      else []) @
     (if is_operator cfg (m_id m) then
        (case filter (\<lambda>r. str_lower w r = ''operator'') (roles_of (join_prelude m g w) (m_guild m)) of
           [] \<Rightarrow> [] | r # rs \<Rightarrow> [AddRole (m_guild m) (m_id m) r])
      else [CreateTextChannel (gg_id g) (next_channel_id rsp),
            SendFile (next_channel_id rsp) (next_captcha_text rsp)
              (Replace (Replace (Template ''captcha_message_embed_title'')
                 ''{current_try}'' (str 5)) ''{tries_left}'' (str 4))])"
proof (cases "is_operator cfg (m_id m)")
  case True
  show ?thesis
    by (rule performed_append)
       (simp only: True if_True on_member_join_operator_oplog [OF True] join_prelude_oplog
          append_assoc)
next
  case False
  show ?thesis
    by (rule performed_append)
       (simp add: False on_member_join_member join_prelude_oplog)
qed

lemma on_member_join_registers:
  "\<not> is_operator cfg (m_id m) \<Longrightarrow>
   has_captcha_channel (fst (state_of (on_member_join cfg rsp m (g, w)))) (m_id m)"
  by (simp add: on_member_join_member has_captcha_channel_def)

text \<open>
  C1 (the code departs from the claim). The claim: a blacklisted member who joins is
  banned and no session is created. In the code, member 7, blacklisted until second
  86400, joins at second 1000: the member is banned, and then a channel is created, the
  captcha is posted, the session is stored for member 7 in the registry, started with
  its countdown running, and its record is written.
\<close>

theorem blacklisted_join_starts_session:
  "is_blacklisted 7 (db blacklisted_world)
   \<and> \<not> is_operator example_config 7
   \<and> raised (on_member_join example_config example_responses example_member
               (example_guild, blacklisted_world)) = None
   \<and> performed blacklisted_world
        (snd (state_of (on_member_join example_config example_responses example_member
                          (example_guild, blacklisted_world))))
       = [Ban 2 7 ''Is a blacklisted member. Banned on join attempt.'',
          CreateTextChannel 2 50,
          SendFile 50 ''qwerty''
            (Replace (Replace (Template ''captcha_message_embed_title'')
               ''{current_try}'' ''5'') ''{tries_left}'' ''4'')]
   \<and> has_captcha_channel
        (fst (state_of (on_member_join example_config example_responses example_member
                          (example_guild, blacklisted_world)))) 7
   \<and> map_option (\<lambda>c. (cc_started c, cc_countdown c, is_active c, cc_channel c))
        (gg_captcha_channels
           (fst (state_of (on_member_join example_config example_responses example_member
                             (example_guild, blacklisted_world)))) 7)
       = Some (True, True, True, Some 50)
   \<and> map cd_member_id (captcha_channels (db (snd (state_of
        (on_member_join example_config example_responses example_member
           (example_guild, blacklisted_world)))))) = [7]"
proof -
  have op: "\<not> is_operator example_config (m_id example_member)"
    by (simp add: is_operator_def example_config_def default_config_def)
  have p: "join_prelude example_member example_guild blacklisted_world
             = ban_member example_member ''Is a blacklisted member. Banned on join attempt.''
                 blacklisted_world"
    by (simp add: join_prelude_def blacklisted_world_def example_world_def example_member_def
        get_blacklisted_member_info_def mongo_find_one_def empty_db_def ban_member_def
        perform_def example_guild_def)
  show ?thesis
    unfolding on_member_join_member [OF op] p
    by (simp add: is_blacklisted_def mongo_find_one_def blacklisted_world_def example_world_def
        empty_db_def is_operator_def example_config_def default_config_def example_member_def
        performed_def ban_member_def perform_def example_guild_def example_responses_def
        has_captcha_channel_def captcha_channel_init_def is_active_def str_examples)
qed

text \<open>
  C10. The join handler bans the member exactly when the blacklist collection holds an
  entry with the member's id: neither the entry's end time nor the clock is read. So an
  entry whose end has passed still bans until it is deleted, and once no entry is left
  the handler bans no more.
\<close>

theorem join_ban_iff_entry:
  "(Ban (m_guild m) (m_id m) ''Is a blacklisted member. Banned on join attempt.''
      \<in> set (performed w (snd (state_of (on_member_join cfg rsp m (g, w))))))
   = (\<exists>e \<in> set (captcha_blacklist (db w)). bl_mid e = m_id m)"
proof -
  have e: "(\<exists>e \<in> set (captcha_blacklist (db w)). bl_mid e = m_id m)
           = (get_blacklisted_member_info (m_id m) (db w) \<noteq> None)"
    by (rule get_blacklisted_member_info_iff [symmetric])
  show ?thesis
    unfolding e on_member_join_performed
    by (cases "get_blacklisted_member_info (m_id m) (db w)";
        cases "int (length (members_of w (gg_id g))) \<in> set [100, 200, 300, 400, 500]";
        cases "announcement_channel w";
        cases "is_operator cfg (m_id m)";
        cases "filter (\<lambda>r. str_lower w r = ''operator'') (roles_of (join_prelude m g w) (m_guild m))")
       simp_all
qed

text \<open>
  At second 1000 the entry of member 7 ended 100 seconds ago and is still stored: the
  join bans. The unban task of that moment deletes the entry (and then raises on the
  missing cooldown setting); after it the join bans no more.
\<close>

theorem join_ban_iff_entry_witness:
  "map bl_ends (captcha_blacklist (db stale_world)) = [900]
   \<and> clock stale_world = 1000
   \<and> Ban 2 7 ''Is a blacklisted member. Banned on join attempt.''
       \<in> set (performed stale_world
                (snd (state_of (on_member_join example_config example_responses example_member
                                  (example_guild, stale_world)))))
   \<and> captcha_blacklist (db (state_of (unban_task example_config [2] stale_world))) = []
   \<and> Ban 2 7 ''Is a blacklisted member. Banned on join attempt.''
       \<notin> set (performed (state_of (unban_task example_config [2] stale_world))
                (snd (state_of (on_member_join example_config example_responses example_member
                   (example_guild, state_of (unban_task example_config [2] stale_world))))))"
proof -
  have s: "state_of (unban_task example_config [2] stale_world)
             = stale_world\<lparr>db := empty_db\<rparr>"
    by (simp add: unban_task_def example_config_def default_config_def stale_world_def
        example_world_def get_blacklist_def empty_db_def sweep_entry_def unban_def
        remove_member_from_blacklist_def)
  have m: "m_guild example_member = 2" "m_id example_member = 7"
    by (simp_all add: example_member_def)
  show ?thesis
    using join_ban_iff_entry [of example_member stale_world example_config example_responses
        example_guild]
      join_ban_iff_entry [of example_member "stale_world\<lparr>db := empty_db\<rparr>" example_config
        example_responses example_guild]
    unfolding s m
    by (simp add: stale_world_def example_world_def empty_db_def)
qed

section \<open>Leaving a gateway guild\<close>

lemma find_update_one:
  "(\<And>d. q d \<Longrightarrow> q (f d)) \<Longrightarrow>
   List.find q (mongo_update_one q f ds) = map_option f (List.find q ds)"
  by (induction ds) auto

lemma find_append_new: "List.find q ds = None \<Longrightarrow> q d \<Longrightarrow> List.find q (ds @ [d]) = Some d"
  by (induction ds) (auto split: if_splits)

lemma counter_after_leave:
  "map_option ct_counter (get_captcha_counter mid (update_captcha_counter now mid 1 dm)) =
     Some (case get_captcha_counter mid dm of None \<Rightarrow> 1 | Some e \<Rightarrow> ct_counter e + 1)"
  by (cases "get_captcha_counter mid dm")
     (simp_all add: get_captcha_counter_def update_captcha_counter_def mongo_find_one_def
        mongo_insert_one_def find_update_one find_append_new)

lemma update_captcha_counter_blacklist:
  "captcha_blacklist (update_captcha_counter now mid k dm) = captcha_blacklist dm"
  by (simp add: update_captcha_counter_def split: option.splits)

lemma delete_captcha_channel_ok:
  "gg_captcha_channels g (m_id m) = Some c \<Longrightarrow> cc_channel c = Some ch \<Longrightarrow>
   delete_captcha_channel m (g, w) =
     Done (g\<lparr>gg_captcha_channels := (gg_captcha_channels g)(m_id m := None)\<rparr>,
           perform (DeleteChannel ch) w)"
  by (simp add: delete_captcha_channel_def in_session_def destory_def with_channel_def)

lemma delete_captcha_channel_frame:
  "db (snd (state_of (delete_captcha_channel m (g, w)))) = db w
   \<and> bans_of (snd (state_of (delete_captcha_channel m (g, w)))) = bans_of w
   \<and> clock (snd (state_of (delete_captcha_channel m (g, w)))) = clock w
   \<and> gg_id (fst (state_of (delete_captcha_channel m (g, w)))) = gg_id g"
  by (simp add: delete_captcha_channel_def in_session_def destory_def with_channel_def perform_def
      split: option.splits)

lemma on_member_leave_banned:
  assumes "m_id m \<in> set (bans_of w (gg_id g))"
  shows "captcha_blacklist (db (snd (state_of (on_member_leave cfg m (g, w)))))
           = captcha_blacklist (db w)
         \<and> bans_of (snd (state_of (on_member_leave cfg m (g, w)))) = bans_of w"
proof (cases "has_captcha_channel g (m_id m)")
  case False
  then show ?thesis by (simp add: on_member_leave_def)
next
  case True
  obtain r where r: "delete_captcha_channel m (g, w) = r" by simp
  show ?thesis
  proof (cases r)
    case (Raised e s)
    with r True delete_captcha_channel_frame [of m g w] show ?thesis
      by (simp add: on_member_leave_def)
  next
    case (Done s)
    with r delete_captcha_channel_frame [of m g w]
    have f: "db (snd s) = db w" "bans_of (snd s) = bans_of w" "gg_id (fst s) = gg_id g"
      by simp_all
    show ?thesis
      using True r Done f assms
      by (simp add: on_member_leave_def update_captcha_counter_blacklist
          split: option.splits)
  qed
qed

lemma on_member_leave_crossing:
  assumes c: "gg_captcha_channels g (m_id m) = Some c" and ch: "cc_channel c = Some ch"
    and op: "\<not> is_operator cfg (m_id m)" and gm: "m_guild m = gg_id g"
    and nb: "m_id m \<notin> set (bans_of w (gg_id g))"
    and lim: "rejoin_limit cfg \<le>
                (case get_captcha_counter (m_id m) (db w) of None \<Rightarrow> 1
                 | Some e \<Rightarrow> ct_counter e + 1)"
  shows "\<exists>g1 w1. on_member_leave cfg m (g, w) = Done (g1, w1) \<and> gg_id g1 = gg_id g
      \<and> captcha_blacklist (db w1) = captcha_blacklist (db w) @
           [\<lparr>bl_mid = m_id m, bl_started = clock w,
             bl_ends = clock w + of_int (rejoin_blacklist_duration cfg),
             bl_reason = ''Rejoined a Gateway Guild too often.''\<rparr>]
      \<and> m_id m \<in> set (bans_of w1 (gg_id g))"
proof -
  obtain e where e: "get_captcha_counter (m_id m) (update_captcha_counter (clock w) (m_id m) 1 (db w)) = Some e"
    and ec: "ct_counter e = (case get_captcha_counter (m_id m) (db w) of None \<Rightarrow> 1
                 | Some e \<Rightarrow> ct_counter e + 1)"
    using counter_after_leave [of "m_id m" "clock w" "db w"] by auto
  show ?thesis
    using c ch op gm nb lim e ec
    by (simp add: on_member_leave_def has_captcha_channel_def delete_captcha_channel_ok
        perform_def ban_member_def add_member_to_blacklist_def mongo_insert_one_def
        update_captcha_counter_blacklist)
qed

text \<open>
  C7. A member with a session whose leave brings the rejoin counter to the limit or
  beyond, who is not an operator and not yet banned in the gateway guild: the leave
  appends exactly one blacklist entry for the member (of the configured rejoin duration)
  and bans the member. Whenever the member is among the guild's bans, a leave appends no
  blacklist entry and the member stays banned.
\<close>

theorem rejoin_limit_one_blacklist_entry:
  assumes "gg_captcha_channels g (m_id m) = Some c" and "cc_channel c = Some ch"
    and "\<not> is_operator cfg (m_id m)" and "m_guild m = gg_id g"
    and "m_id m \<notin> set (bans_of w (gg_id g))"
    and "rejoin_limit cfg \<le>
           (case get_captcha_counter (m_id m) (db w) of None \<Rightarrow> 1
            | Some e \<Rightarrow> ct_counter e + 1)"
  shows "\<exists>g1 w1. on_member_leave cfg m (g, w) = Done (g1, w1) \<and> gg_id g1 = gg_id g
      \<and> captcha_blacklist (db w1) = captcha_blacklist (db w) @
           [\<lparr>bl_mid = m_id m, bl_started = clock w,
             bl_ends = clock w + of_int (rejoin_blacklist_duration cfg),
             bl_reason = ''Rejoined a Gateway Guild too often.''\<rparr>]
      \<and> m_id m \<in> set (bans_of w1 (gg_id g))
      \<and> (\<forall>g2 w2. m_id m \<in> set (bans_of w2 (gg_id g2)) \<longrightarrow>
            captcha_blacklist (db (snd (state_of (on_member_leave cfg m (g2, w2)))))
              = captcha_blacklist (db w2)
            \<and> m_id m \<in> set (bans_of (snd (state_of (on_member_leave cfg m (g2, w2))))
                               (gg_id g2)))"
proof -
  from on_member_leave_crossing [OF assms] obtain g1 w1 where
    "on_member_leave cfg m (g, w) = Done (g1, w1) \<and> gg_id g1 = gg_id g
      \<and> captcha_blacklist (db w1) = captcha_blacklist (db w) @
           [\<lparr>bl_mid = m_id m, bl_started = clock w,
             bl_ends = clock w + of_int (rejoin_blacklist_duration cfg),
             bl_reason = ''Rejoined a Gateway Guild too often.''\<rparr>]
      \<and> m_id m \<in> set (bans_of w1 (gg_id g))"
    by blast
  moreover have "\<forall>g2 w2. m_id m \<in> set (bans_of w2 (gg_id g2)) \<longrightarrow>
            captcha_blacklist (db (snd (state_of (on_member_leave cfg m (g2, w2)))))
              = captcha_blacklist (db w2)
            \<and> m_id m \<in> set (bans_of (snd (state_of (on_member_leave cfg m (g2, w2))))
                               (gg_id g2))"
    using on_member_leave_banned by simp
  ultimately show ?thesis by blast
qed

lemma leaving_facts:
  "gg_captcha_channels leaving_guild (m_id example_member) = Some example_session"
  "cc_channel example_session = Some 50"
  "\<not> is_operator example_config (m_id example_member)"
  "m_guild example_member = gg_id leaving_guild"
  "m_id example_member \<notin> set (bans_of leaving_world (gg_id leaving_guild))"
  "rejoin_limit example_config \<le>
     (case get_captcha_counter (m_id example_member) (db leaving_world) of None \<Rightarrow> 1
      | Some e \<Rightarrow> ct_counter e + 1)"
  by (simp_all add: leaving_guild_def leaving_world_def example_guild_def example_member_def
      example_session_def example_config_def default_config_def is_operator_def
      example_session_world_def example_world_def get_captcha_counter_def mongo_find_one_def
      empty_db_def)

theorem rejoin_limit_one_blacklist_entry_witness:
  "rejoin_limit example_config = 3
   \<and> get_captcha_counter 7 (db leaving_world)
       = Some \<lparr>ct_mid = 7, ct_counter = 2, ct_updated_at = 0\<rparr>
   \<and> 7 \<notin> set (bans_of leaving_world 2)
   \<and> captcha_blacklist (db leaving_world) = []
   \<and> captcha_blacklist (db (snd (state_of
         (on_member_leave example_config example_member (leaving_guild, leaving_world)))))
       = [\<lparr>bl_mid = 7, bl_started = 100, bl_ends = 86500,
           bl_reason = ''Rejoined a Gateway Guild too often.''\<rparr>]
   \<and> 7 \<in> set (bans_of (snd (state_of
         (on_member_leave example_config example_member (leaving_guild, leaving_world)))) 2)
   \<and> captcha_blacklist (db (snd (state_of
         (on_member_leave example_config example_member
            (rejoined (state_of
               (on_member_leave example_config example_member
                  (leaving_guild, leaving_world))))))))
       = [\<lparr>bl_mid = 7, bl_started = 100, bl_ends = 86500,
           bl_reason = ''Rejoined a Gateway Guild too often.''\<rparr>]"
proof -
  from rejoin_limit_one_blacklist_entry [OF leaving_facts]
  obtain g1 w1 where
    r: "on_member_leave example_config example_member (leaving_guild, leaving_world) = Done (g1, w1)"
    and g: "gg_id g1 = gg_id leaving_guild"
    and b: "captcha_blacklist (db w1) = captcha_blacklist (db leaving_world) @
           [\<lparr>bl_mid = m_id example_member, bl_started = clock leaving_world,
             bl_ends = clock leaving_world + of_int (rejoin_blacklist_duration example_config),
             bl_reason = ''Rejoined a Gateway Guild too often.''\<rparr>]"
    and n: "m_id example_member \<in> set (bans_of w1 (gg_id leaving_guild))"
    and later: "\<And>g2 w2. m_id example_member \<in> set (bans_of w2 (gg_id g2)) \<Longrightarrow>
            captcha_blacklist (db (snd (state_of (on_member_leave example_config example_member (g2, w2)))))
              = captcha_blacklist (db w2)"
    by blast
  have "gg_id (fst (rejoined (g1, w1))) = gg_id leaving_guild"
    by (simp add: rejoined_def g)
  with n have "m_id example_member \<in> set (bans_of (snd (rejoined (g1, w1))) (gg_id (fst (rejoined (g1, w1)))))"
    by (simp add: rejoined_def)
  from later [OF this]
  have l: "captcha_blacklist (db (snd (state_of (on_member_leave example_config example_member (rejoined (g1, w1))))))
     = captcha_blacklist (db w1)"
    by (simp add: rejoined_def)
  show ?thesis
    using r b n l
    by (simp add: leaving_world_def leaving_guild_def example_guild_def example_member_def
        example_config_def default_config_def example_session_world_def example_world_def
        get_captcha_counter_def mongo_find_one_def empty_db_def)
qed

end
